theory Spec2Isabelle
  imports Complex_Main "HOL-Library.AList"
begin

text \<open>
  A model of the CTS renderer: one drawing interface over three browser graphics APIs.
  \<open>WGLRenderer\<close> (WebGL) and \<open>WGL2Renderer\<close> (WebGL2, a subclass) are the
  immediate-mode backends, \<open>WGPURenderer\<close> (WebGPU) the encoder-based one. Each class is
  a record of its fields and each method a function from the renderer to the renderer
  it leaves; the browser's answers are arguments.
\<close>

section \<open>JavaScript values and containers\<close>

text \<open>
  The renderers are JavaScript classes. A method that throws is modelled as a function
  whose result is \<open>Inl (e, s')\<close>: the error thrown and the renderer as the throw left it
  (some methods mutate before they throw). \<open>Inr s'\<close> is a normal return.
\<close>

datatype resource_kind =
  BufferRes | TextureRes | ProgramRes | FramebufferRes | RenderTargetRes
  | BindGroupRes | ComputePipelineRes | VAORes

datatype error =
  UnsupportedBackend
  | ContextAcquisitionFailed
  | NotInitialized
  | InvalidConfig string
  | NotFound resource_kind string
  | CompileOrLinkFailed
  | FramebufferIncomplete
  | NoPipelineSet
  | NoProgramSet
  | AllocationFailed
  | TypeError

type_synonym 's outcome = "(error \<times> 's) + 's"

text \<open>Truthiness of an optional string and of an optional number, and \<open>x || d\<close>.\<close>

definition truthy_str :: "string option \<Rightarrow> bool" where
  "truthy_str v = (case v of None \<Rightarrow> False | Some x \<Rightarrow> x \<noteq> [])"

definition truthy_num :: "nat option \<Rightarrow> bool" where
  "truthy_num v = (case v of None \<Rightarrow> False | Some n \<Rightarrow> n \<noteq> 0)"

definition str_or :: "string option \<Rightarrow> string \<Rightarrow> string" where
  "str_or v d = (case v of None \<Rightarrow> d | Some x \<Rightarrow> if x = [] then d else x)"

definition num_or :: "nat option \<Rightarrow> nat \<Rightarrow> nat" where
  "num_or v d = (case v of None \<Rightarrow> d | Some n \<Rightarrow> if n = 0 then d else n)"

text \<open>
  A JavaScript \<open>Map\<close> keeps insertion order: it is an association list with distinct
  keys, \<open>set\<close> replacing in place or appending (\<open>AList.update\<close>), \<open>delete\<close> removing the
  key (\<open>AList.delete\<close>), \<open>get\<close> being \<open>map_of\<close> and \<open>clear\<close> the empty list.
\<close>

type_synonym ('k, 'v) jsmap = "('k \<times> 'v) list"

definition Map_has :: "('k, 'v) jsmap \<Rightarrow> 'k \<Rightarrow> bool" where
  "Map_has m k = (map_of m k \<noteq> None)"

text \<open>
  The data handed to a buffer: an \<open>ArrayBuffer\<close> of some byte length, or a typed-array
  view with its own byte length over an underlying buffer of some byte length.
\<close>

datatype buffer_source =
  ArrayBuffer nat
  | ArrayBufferView (view_byteLength: nat) (underlying_byteLength: nat)

fun byteLength :: "buffer_source \<Rightarrow> nat" where
  "byteLength (ArrayBuffer n) = n"
| "byteLength (ArrayBufferView n u) = n"

datatype console_msg =
  WarnNotInitialized
  | WarnBufferTooSmall string
  | WarnVertexBufferNotFound string
  | ErrorFailedToInitialize error
  | ErrorFailedToCreateProgram string error

datatype event =
  EvInitialized
  | EvError error
  | EvDestroyed
  | EvBufferCreated string nat
  | EvBufferUpdated string nat nat
  | EvBufferDestroyed string
  | EvTextureCreated string nat nat
  | EvTextureUpdated string nat nat
  | EvTextureDestroyed string
  | EvRenderTargetCreated string nat nat
  | EvRenderTargetDestroyed string
  | EvSamplerCreated string
  | EvBindGroupCreated string
  | EvPipelineCreated string bool
  | EvPipelineDestroyed string
  | EvPipelineSet string
  | EvComputePipelineCreated string
  | EvComputeDispatched string
  | EvMsaaChanged nat
  | EvFrameRendered nat
  | EvResize nat nat
  | EvProgramCreated string
  | EvProgramSet string
  | EvFramebufferCreated string
  | EvVertexAttributesSetup string
  | EvDraw

record canvas_element =
  canvas_width :: nat
  canvas_height :: nat

record color =
  col_r :: real
  col_g :: real
  col_b :: real
  col_a :: real

section \<open>WGPURenderer: the encoder-based backend\<close>

subsection \<open>Native objects\<close>

text \<open>
  A native object (buffer, texture, view, sampler, pipeline, bind group, shader module)
  is a handle: a number the device hands out, never twice. \<open>nextHandle\<close> is the next one;
  \<open>destroyed\<close> lists the handles on which \<open>destroy()\<close> was called.
\<close>

text \<open>
  Flags of \<open>GPUTextureUsage\<close>, as WebGPU defines them. They are distinct bits: the
  \<open>|\<close> of two of them is their sum.
\<close>

definition GPUTextureUsage_COPY_DST :: nat where
  "GPUTextureUsage_COPY_DST = 2"

definition GPUTextureUsage_TEXTURE_BINDING :: nat where
  "GPUTextureUsage_TEXTURE_BINDING = 4"

definition GPUTextureUsage_RENDER_ATTACHMENT :: nat where
  "GPUTextureUsage_RENDER_ATTACHMENT = 16"

record buffer_metadata =
  buffer :: nat
  buf_size :: nat
  buf_usage :: nat
  indexFormat :: "string option"

record texture_metadata =
  texture :: nat
  view :: nat
  width :: nat
  height :: nat
  tex_format :: string
  tex_usage :: nat
  sampleCount :: "nat option"

datatype bind_group_layout =
  CreatedLayout nat
  | PipelineBindGroupLayout nat nat

datatype pipeline_layout = AutoLayout | ExplicitLayout "bind_group_layout list"

record blend_component =
  srcFactor :: string
  dstFactor :: string
  operation :: string

record blend_state =
  blend_color :: blend_component
  blend_alpha :: blend_component

record depth_stencil_state =
  depthWriteEnabled :: bool
  depthCompare :: string
  ds_format :: string

record render_pipeline =
  rp_handle :: nat
  rp_layout :: pipeline_layout
  rp_module :: nat
  rp_target_format :: "string option"
  rp_blend :: "blend_state option"
  rp_topology :: string
  rp_cullMode :: string
  rp_depthStencil :: "depth_stencil_state option"
  rp_multisample :: nat

record compute_pipeline =
  cp_handle :: nat
  cp_module :: nat

record bind_group_entry =
  binding :: nat
  resource :: nat

record bind_group =
  bg_handle :: nat
  bg_layout :: bind_group_layout
  bg_entries :: "bind_group_entry list"

text \<open>What a pass records, and what reaches the queue.\<close>

datatype color_view = SwapChainView | TextureView nat

datatype store_op = Store | Discard

datatype draw_cmd =
  DrawIndexed nat string nat nat nat int nat
  | Draw nat nat nat nat

record attachment_metadata =
  at_texture :: nat
  at_view :: nat
  at_width :: nat
  at_height :: nat
  at_format :: "string option"
  at_usage :: nat
  at_sampleCount :: "nat option"

record sampler =
  sampler_handle :: nat
  addressModeU :: string
  addressModeV :: string
  addressModeW :: string
  magFilter :: string
  minFilter :: string

record depth_stencil_attachment =
  dsa_view :: nat
  depthClearValue :: real
  stencilClearValue :: nat

record render_pass =
  pass_frame :: nat
  colorView :: color_view
  resolveTarget :: "color_view option"
  clearValue :: color
  storeOp :: store_op
  depthStencilAttachment :: "depth_stencil_attachment option"
  pass_pipeline :: nat
  pass_vertexBuffers :: "(nat \<times> nat) list"
  pass_bindGroups :: "(nat \<times> nat) list"
  pass_draw :: "draw_cmd option"

record compute_pass =
  cpass_pipeline :: nat
  cpass_bindGroups :: "(nat \<times> nat) list"
  cpass_workgroups :: "nat \<times> nat \<times> nat"

datatype queue_op =
  WriteBuffer nat nat nat
  | WriteTexture nat nat nat nat
  | SubmitRender render_pass
  | SubmitCompute compute_pass

subsection \<open>The renderer\<close>

text \<open>
  The fields of the class, under their names without the trailing underscore
  (\<open>gpuContext\<close> is \<open>context_\<close>). The base record holds what every renderer has, and
  what the model adds to follow effects: \<open>events\<close> is the sequence of \<open>emit\<close> calls
  (listeners are callbacks of the caller: \<open>emit\<close> catches what they throw, and they
  are taken not to call the renderer themselves), \<open>console\<close>
  what was written to the console, \<open>nextHandle\<close> the next native object, \<open>queue\<close> what
  was handed to the device queue. \<open>startTime_\<close> and \<open>eventListeners_\<close> are left out.
\<close>

record renderer =
  canvas :: canvas_element
  isInitialized :: bool
  events :: "event list"
  console :: "console_msg list"
  nextHandle :: nat

record wgpu_renderer = renderer +
  device :: "nat option"
  gpuContext :: "nat option"
  format :: "string option"
  pipelines :: "(string, render_pipeline) jsmap"
  computePipelines :: "(string, compute_pipeline) jsmap"
  buffers :: "(string, buffer_metadata) jsmap"
  textures :: "(string, texture_metadata) jsmap"
  samplers :: "(string, sampler) jsmap"
  bindGroups :: "(string, bind_group) jsmap"
  renderTargets :: "(string, texture_metadata) jsmap"
  currentPipeline :: "string option"
  clearColor :: color
  clearDepth :: real
  clearStencil :: nat
  shaderModules :: "(string, nat) jsmap"
  frameCount :: nat
  currentRenderTarget :: "string option"
  bindGroupLayouts :: "(string, bind_group_layout) jsmap"
  currentVertexBuffers :: "(nat, nat \<times> nat) jsmap"
  currentBindGroups :: "(nat, bind_group) jsmap"
  blendState :: "blend_state option"
  depthStencilState :: "depth_stencil_state option"
  depthStencilTexture :: "attachment_metadata option"
  msaaSampleCount :: nat
  msaaTexture :: "attachment_metadata option"
  blendEnabled :: bool
  depthEnabled :: bool
  cullMode :: string
  queue :: "queue_op list"
  destroyed :: "nat list"

definition WGPURenderer :: "canvas_element \<Rightarrow> wgpu_renderer" where
  "WGPURenderer cv =
     \<lparr>canvas = cv, isInitialized = False, events = [], console = [], nextHandle = 0,
      device = None, gpuContext = None, format = None,
      pipelines = [], computePipelines = [], buffers = [], textures = [],
      samplers = [], bindGroups = [], renderTargets = [], currentPipeline = None,
      clearColor = \<lparr>col_r = 0.1, col_g = 0.1, col_b = 0.1, col_a = 1\<rparr>, clearDepth = 1, clearStencil = 0,
      shaderModules = [], frameCount = 0, currentRenderTarget = None,
      bindGroupLayouts = [], currentVertexBuffers = [], currentBindGroups = [],
      blendState = None, depthStencilState = None, depthStencilTexture = None,
      msaaSampleCount = 1, msaaTexture = None, blendEnabled = False,
      depthEnabled = False, cullMode = ''none'', queue = [], destroyed = []\<rparr>"

definition emit :: "event \<Rightarrow> 'a renderer_scheme \<Rightarrow> 'a renderer_scheme" where
  "emit e s = s\<lparr>events := events s @ [e]\<rparr>"

definition console_write :: "console_msg \<Rightarrow> 'a renderer_scheme \<Rightarrow> 'a renderer_scheme" where
  "console_write m s = s\<lparr>console := console s @ [m]\<rparr>"

subsection \<open>Capability probe and initialization\<close>

text \<open>
  What the browser answers when the renderer asks: whether \<open>navigator\<close>,
  \<open>navigator.gpu\<close>, \<open>GPUAdapter\<close> and \<open>GPUDevice\<close> are defined, whether
  \<open>requestAdapter\<close>, \<open>requestDevice\<close> and \<open>getContext('webgpu')\<close> give an object or
  \<open>null\<close>, and the preferred canvas format.
\<close>

record gpu_platform =
  navigator_defined :: bool
  navigator_gpu_defined :: bool
  GPUAdapter_defined :: bool
  GPUDevice_defined :: bool
  adapter_granted :: bool
  device_granted :: bool
  webgpu_context_granted :: bool
  preferredCanvasFormat :: string

definition wgpu_isSupported :: "gpu_platform \<Rightarrow> bool" where
  "wgpu_isSupported p =
     (navigator_defined p \<and> navigator_gpu_defined p \<and> GPUAdapter_defined p
      \<and> GPUDevice_defined p)"

text \<open>The \<open>catch\<close> block of \<open>initialize\<close>: log, emit \<open>error\<close>, rethrow.\<close>

definition wgpu_initialize_catch :: "error \<Rightarrow> wgpu_renderer \<Rightarrow> wgpu_renderer outcome" where
  "wgpu_initialize_catch e s =
     Inl (e, emit (EvError e) (console_write (ErrorFailedToInitialize e) s))"

definition wgpu_initialize :: "gpu_platform \<Rightarrow> wgpu_renderer \<Rightarrow> wgpu_renderer outcome" where
  "wgpu_initialize p s =
     (if \<not> wgpu_isSupported p then Inl (UnsupportedBackend, s)
      else if \<not> adapter_granted p then wgpu_initialize_catch ContextAcquisitionFailed s
      else if \<not> device_granted p
        then wgpu_initialize_catch ContextAcquisitionFailed (s\<lparr>device := None\<rparr>)
      else
        let s1 = s\<lparr>device := Some (nextHandle s), nextHandle := Suc (nextHandle s)\<rparr> in
        if \<not> webgpu_context_granted p
          then wgpu_initialize_catch ContextAcquisitionFailed (s1\<lparr>gpuContext := None\<rparr>)
        else
          Inr (emit EvInitialized
            (s1\<lparr>gpuContext := Some (nextHandle s1), nextHandle := Suc (nextHandle s1),
                format := Some (preferredCanvasFormat p), isInitialized := True\<rparr>)))"

subsection \<open>Destroying\<close>

definition wgpu_destroyBuffer :: "string \<Rightarrow> wgpu_renderer \<Rightarrow> wgpu_renderer" where
  "wgpu_destroyBuffer name s =
     (case map_of (buffers s) name of
        None \<Rightarrow> s
      | Some bufferMetadata \<Rightarrow>
          emit (EvBufferDestroyed name)
            (s\<lparr>destroyed := destroyed s @ [buffer bufferMetadata],
               buffers := AList.delete name (buffers s)\<rparr>))"

definition wgpu_destroyPipeline :: "string \<Rightarrow> wgpu_renderer \<Rightarrow> wgpu_renderer" where
  "wgpu_destroyPipeline name s =
     emit (EvPipelineDestroyed name) (s\<lparr>pipelines := AList.delete name (pipelines s)\<rparr>)"

definition wgpu_destroyTexture :: "string \<Rightarrow> wgpu_renderer \<Rightarrow> wgpu_renderer" where
  "wgpu_destroyTexture name s =
     (case map_of (textures s) name of
        None \<Rightarrow> s
      | Some textureMetadata \<Rightarrow>
          emit (EvTextureDestroyed name)
            (s\<lparr>destroyed := destroyed s @ [texture textureMetadata],
               textures := AList.delete name (textures s)\<rparr>))"

definition wgpu_destroy :: "wgpu_renderer \<Rightarrow> wgpu_renderer" where
  "wgpu_destroy s =
     (let s1 = s\<lparr>destroyed := destroyed s @ map (\<lambda>(name, m). buffer m) (buffers s),
                 events := events s @ map (\<lambda>(name, m). EvBufferDestroyed name) (buffers s),
                 buffers := []\<rparr>;
          s2 = s1\<lparr>destroyed := destroyed s1 @ map (\<lambda>(name, m). texture m) (textures s1),
                  events := events s1 @ map (\<lambda>(name, m). EvTextureDestroyed name) (textures s1),
                  textures := []\<rparr>;
          s3 = s2\<lparr>destroyed := destroyed s2 @ map (\<lambda>(name, m). texture m) (renderTargets s2),
                  events := events s2
                    @ map (\<lambda>(name, m). EvRenderTargetDestroyed name) (renderTargets s2),
                  renderTargets := []\<rparr>
      in emit EvDestroyed
           (s3\<lparr>pipelines := [], computePipelines := [], samplers := [], bindGroups := [],
               shaderModules := [], device := None, gpuContext := None,
               isInitialized := False\<rparr>))"

subsection \<open>Textures\<close>

record texture_config =
  tc_name :: string
  tc_width :: nat
  tc_height :: nat
  tc_format :: "string option"
  tc_usage :: "nat option"

definition wgpu_createTexture :: "texture_config \<Rightarrow> wgpu_renderer \<Rightarrow> wgpu_renderer outcome" where
  "wgpu_createTexture config s =
     (if \<not> isInitialized s then Inl (NotInitialized, s)
      else
        let format' = str_or (tc_format config) ''rgba8unorm'';
            usage' = num_or (tc_usage config)
              (GPUTextureUsage_TEXTURE_BINDING + GPUTextureUsage_COPY_DST)
        in case device s of
          None \<Rightarrow> Inl (TypeError, s)
        | Some d \<Rightarrow>
            let metadata = \<lparr>texture = nextHandle s, view = Suc (nextHandle s),
                  width = tc_width config, height = tc_height config,
                  tex_format = format', tex_usage = usage', sampleCount = None\<rparr>
            in Inr (emit (EvTextureCreated (tc_name config) (tc_width config) (tc_height config))
                 (s\<lparr>nextHandle := Suc (Suc (nextHandle s)),
                    textures := AList.update (tc_name config) metadata (textures s)\<rparr>)))"

text \<open>
  \<open>needsResize\<close> of \<open>updateTexture\<close>: \<open>width && height && (width !== stored.width ||
  height !== stored.height)\<close>. A dimension that is \<open>undefined\<close> or \<open>0\<close> is falsy. The
  result is the pair of new dimensions when a resize is needed.
\<close>

definition needsResize :: "nat option \<Rightarrow> nat option \<Rightarrow> texture_metadata \<Rightarrow> (nat \<times> nat) option" where
  "needsResize w h textureMetadata =
     (case w of
        None \<Rightarrow> None
      | Some wv \<Rightarrow>
          (case h of
             None \<Rightarrow> None
           | Some hv \<Rightarrow>
               if wv \<noteq> 0 \<and> hv \<noteq> 0
                  \<and> (wv \<noteq> width textureMetadata \<or> hv \<noteq> height textureMetadata)
               then Some (wv, hv) else None))"

text \<open>
  The write at the end of \<open>updateTexture\<close>, into the texture of the metadata object the
  method holds (the one it looked up at entry, its fields overwritten after a resize).
\<close>

definition wgpu_writeTexture ::
  "string \<Rightarrow> nat option \<Rightarrow> nat option \<Rightarrow> texture_metadata \<Rightarrow> wgpu_renderer
     \<Rightarrow> wgpu_renderer outcome" where
  "wgpu_writeTexture name w h textureMetadata s =
     (let targetWidth = num_or w (width textureMetadata);
          targetHeight = num_or h (height textureMetadata)
      in case device s of
        None \<Rightarrow> Inl (TypeError, s)
      | Some d \<Rightarrow>
          Inr (emit (EvTextureUpdated name targetWidth targetHeight)
            (s\<lparr>queue := queue s
                 @ [WriteTexture (texture textureMetadata) (targetWidth * 4)
                      targetWidth targetHeight]\<rparr>)))"

definition wgpu_updateTexture ::
  "string \<Rightarrow> nat option \<Rightarrow> nat option \<Rightarrow> wgpu_renderer \<Rightarrow> wgpu_renderer outcome" where
  "wgpu_updateTexture name w h s =
     (case map_of (textures s) name of
        None \<Rightarrow> Inl (NotFound TextureRes name, s)
      | Some textureMetadata \<Rightarrow>
          (case needsResize w h textureMetadata of
             None \<Rightarrow> wgpu_writeTexture name w h textureMetadata s
           | Some (wv, hv) \<Rightarrow>
               (case wgpu_createTexture
                       \<lparr>tc_name = name, tc_width = wv, tc_height = hv,
                        tc_format = Some (tex_format textureMetadata),
                        tc_usage = Some (tex_usage textureMetadata)\<rparr>
                       (wgpu_destroyTexture name s) of
                  Inl x \<Rightarrow> Inl x
                | Inr s1 \<Rightarrow>
                    (case map_of (textures s1) name of
                       None \<Rightarrow> Inl (TypeError, s1)
                     | Some newMetadata \<Rightarrow>
                         wgpu_writeTexture name w h
                           (textureMetadata\<lparr>texture := texture newMetadata,
                              view := view newMetadata, width := wv, height := hv\<rparr>)
                           s1))))"

subsection \<open>Buffers\<close>

record buffer_config =
  bc_name :: "string option"
  bc_data :: "buffer_source option"
  bc_usage :: "nat option"
  bc_indexFormat :: "string option"

text \<open>
  \<open>createBuffer\<close> maps the buffer at creation, copies the data and unmaps: nothing goes
  through the queue.
\<close>

definition wgpu_createBuffer :: "buffer_config \<Rightarrow> wgpu_renderer \<Rightarrow> wgpu_renderer outcome" where
  "wgpu_createBuffer config s =
     (if \<not> isInitialized s then Inl (NotInitialized, s)
      else case bc_name config of
        None \<Rightarrow> Inl (InvalidConfig ''name'', s)
      | Some name \<Rightarrow>
          if name = [] then Inl (InvalidConfig ''name'', s)
          else case bc_data config of
            None \<Rightarrow> Inl (InvalidConfig ''data'', s)
          | Some data \<Rightarrow>
              (case bc_usage config of
                 None \<Rightarrow> Inl (InvalidConfig ''usage'', s)
               | Some usage' \<Rightarrow>
                   if usage' = 0 then Inl (InvalidConfig ''usage'', s)
                   else case device s of
                     None \<Rightarrow> Inl (TypeError, s)
                   | Some d \<Rightarrow>
                       let metadata = \<lparr>buffer = nextHandle s, buf_size = byteLength data,
                             buf_usage = usage', indexFormat = bc_indexFormat config\<rparr>
                       in Inr (emit (EvBufferCreated name (byteLength data))
                            (s\<lparr>nextHandle := Suc (nextHandle s),
                               buffers := AList.update name metadata (buffers s)\<rparr>))))"

text \<open>\<open>data instanceof ArrayBuffer ? data : data.buffer\<close>, of which the length is read.\<close>

fun dataToWrite_byteLength :: "buffer_source \<Rightarrow> nat" where
  "dataToWrite_byteLength (ArrayBuffer n) = n"
| "dataToWrite_byteLength (ArrayBufferView n u) = u"

definition wgpu_updateBuffer ::
  "string \<Rightarrow> buffer_source \<Rightarrow> nat \<Rightarrow> wgpu_renderer \<Rightarrow> wgpu_renderer outcome" where
  "wgpu_updateBuffer name data offset s =
     (if \<not> isInitialized s then Inl (NotInitialized, s)
      else case map_of (buffers s) name of
        None \<Rightarrow> Inl (NotFound BufferRes name, s)
      | Some bufferMetadata \<Rightarrow>
          let n = dataToWrite_byteLength data;
              s1 = (if offset + n > buf_size bufferMetadata
                    then console_write (WarnBufferTooSmall name) s else s)
          in case device s1 of
            None \<Rightarrow> Inl (TypeError, s1)
          | Some d \<Rightarrow>
              Inr (emit (EvBufferUpdated name offset n)
                (s1\<lparr>queue := queue s1 @ [WriteBuffer (buffer bufferMetadata) offset n]\<rparr>)))"

subsection \<open>Samplers, render targets, attachments\<close>

record sampler_config =
  sc_name :: string
  sc_addressModeU :: "string option"
  sc_addressModeV :: "string option"
  sc_addressModeW :: "string option"
  sc_magFilter :: "string option"
  sc_minFilter :: "string option"

definition wgpu_createSampler :: "sampler_config \<Rightarrow> wgpu_renderer \<Rightarrow> wgpu_renderer outcome" where
  "wgpu_createSampler config s =
     (if \<not> isInitialized s then Inl (NotInitialized, s)
      else case device s of
        None \<Rightarrow> Inl (TypeError, s)
      | Some d \<Rightarrow>
          let sampler' = \<lparr>sampler_handle = nextHandle s,
                addressModeU = str_or (sc_addressModeU config) ''clamp-to-edge'',
                addressModeV = str_or (sc_addressModeV config) ''clamp-to-edge'',
                addressModeW = str_or (sc_addressModeW config) ''clamp-to-edge'',
                magFilter = str_or (sc_magFilter config) ''linear'',
                minFilter = str_or (sc_minFilter config) ''linear''\<rparr>
          in Inr (emit (EvSamplerCreated (sc_name config))
               (s\<lparr>nextHandle := Suc (nextHandle s),
                  samplers := AList.update (sc_name config) sampler' (samplers s)\<rparr>)))"

record render_target_config =
  rtc_name :: string
  rtc_width :: nat
  rtc_height :: nat
  rtc_format :: "string option"
  rtc_sampleCount :: "nat option"

definition wgpu_createRenderTarget ::
  "render_target_config \<Rightarrow> wgpu_renderer \<Rightarrow> wgpu_renderer outcome" where
  "wgpu_createRenderTarget config s =
     (if \<not> isInitialized s then Inl (NotInitialized, s)
      else case device s of
        None \<Rightarrow> Inl (TypeError, s)
      | Some d \<Rightarrow>
          let metadata = \<lparr>texture = nextHandle s, view = Suc (nextHandle s),
                width = rtc_width config, height = rtc_height config,
                tex_format = str_or (rtc_format config) ''rgba8unorm'',
                tex_usage = GPUTextureUsage_RENDER_ATTACHMENT + GPUTextureUsage_TEXTURE_BINDING,
                sampleCount = Some (num_or (rtc_sampleCount config) 1)\<rparr>
          in Inr (emit (EvRenderTargetCreated (rtc_name config) (rtc_width config)
                    (rtc_height config))
               (s\<lparr>nextHandle := Suc (Suc (nextHandle s)),
                  renderTargets := AList.update (rtc_name config) metadata (renderTargets s)\<rparr>)))"

definition wgpu_setRenderTarget :: "string option \<Rightarrow> wgpu_renderer \<Rightarrow> wgpu_renderer outcome" where
  "wgpu_setRenderTarget name s =
     (case name of
        None \<Rightarrow> Inr (s\<lparr>currentRenderTarget := None\<rparr>)
      | Some n \<Rightarrow>
          if n \<noteq> [] \<and> \<not> Map_has (renderTargets s) n
          then Inl (NotFound RenderTargetRes n, s)
          else Inr (s\<lparr>currentRenderTarget := Some n\<rparr>))"

definition wgpu_createDepthStencilTexture :: "wgpu_renderer \<Rightarrow> wgpu_renderer outcome" where
  "wgpu_createDepthStencilTexture s =
     (case device s of
        None \<Rightarrow> Inl (TypeError, s)
      | Some d \<Rightarrow>
          Inr (s\<lparr>nextHandle := Suc (Suc (nextHandle s)),
                 depthStencilTexture := Some
                   \<lparr>at_texture = nextHandle s, at_view = Suc (nextHandle s),
                    at_width = canvas_width (canvas s), at_height = canvas_height (canvas s),
                    at_format = Some ''depth24plus-stencil8'',
                    at_usage = GPUTextureUsage_RENDER_ATTACHMENT, at_sampleCount = None\<rparr>\<rparr>))"

definition wgpu_createMSAATexture :: "wgpu_renderer \<Rightarrow> wgpu_renderer outcome" where
  "wgpu_createMSAATexture s =
     (if msaaSampleCount s \<le> 1 then Inr s
      else
        let s1 = (case msaaTexture s of
                    None \<Rightarrow> s
                  | Some old \<Rightarrow> s\<lparr>destroyed := destroyed s @ [at_texture old]\<rparr>)
        in case device s1 of
          None \<Rightarrow> Inl (TypeError, s1)
        | Some d \<Rightarrow>
            Inr (s1\<lparr>nextHandle := Suc (Suc (nextHandle s1)),
                    msaaTexture := Some
                      \<lparr>at_texture = nextHandle s1, at_view = Suc (nextHandle s1),
                       at_width = canvas_width (canvas s1),
                       at_height = canvas_height (canvas s1),
                       at_format = format s1,
                       at_usage = GPUTextureUsage_RENDER_ATTACHMENT,
                       at_sampleCount = Some (msaaSampleCount s1)\<rparr>\<rparr>))"

text \<open>
  \<open>setMSAA\<close> returns a boolean and may throw from \<open>createMSAATexture\<close>: a normal return
  is \<open>Inr (result, s')\<close>.
\<close>

definition wgpu_setMSAA ::
  "bool \<Rightarrow> wgpu_renderer \<Rightarrow> (error \<times> wgpu_renderer) + (bool \<times> wgpu_renderer)" where
  "wgpu_setMSAA enabled s =
     (if \<not> isInitialized s then Inr (False, console_write WarnNotInitialized s)
      else
        let s1 = s\<lparr>msaaSampleCount := (if enabled then 4 else 1)\<rparr> in
        case (if msaaSampleCount s1 > 1 then wgpu_createMSAATexture s1
              else case msaaTexture s1 of
                None \<Rightarrow> Inr s1
              | Some old \<Rightarrow>
                  Inr (s1\<lparr>destroyed := destroyed s1 @ [at_texture old],
                          msaaTexture := None\<rparr>)) of
          Inl x \<Rightarrow> Inl x
        | Inr s2 \<Rightarrow> Inr (True, emit (EvMsaaChanged (msaaSampleCount s2)) s2))"

subsection \<open>Render state\<close>

record blend_config =
  bcfg_srcFactor :: "string option"
  bcfg_dstFactor :: "string option"
  bcfg_colorOperation :: "string option"
  bcfg_alphaSrcFactor :: "string option"
  bcfg_alphaDstFactor :: "string option"
  bcfg_alphaOperation :: "string option"

definition wgpu_setBlendState :: "bool \<Rightarrow> blend_config \<Rightarrow> wgpu_renderer \<Rightarrow> wgpu_renderer" where
  "wgpu_setBlendState enabled config s =
     s\<lparr>blendEnabled := enabled,
        blendState := Some
          \<lparr>blend_color = \<lparr>srcFactor = str_or (bcfg_srcFactor config) ''src-alpha'',
              dstFactor = str_or (bcfg_dstFactor config) ''one-minus-src-alpha'',
              operation = str_or (bcfg_colorOperation config) ''add''\<rparr>,
           blend_alpha = \<lparr>srcFactor = str_or (bcfg_alphaSrcFactor config) ''one'',
              dstFactor = str_or (bcfg_alphaDstFactor config) ''one-minus-src-alpha'',
              operation = str_or (bcfg_alphaOperation config) ''add''\<rparr>\<rparr>\<rparr>"

record depth_config =
  dc_compare :: "string option"
  dc_depthWriteEnabled :: "bool option"

definition wgpu_setDepthState ::
  "bool \<Rightarrow> depth_config \<Rightarrow> wgpu_renderer \<Rightarrow> wgpu_renderer outcome" where
  "wgpu_setDepthState enabled config s =
     (let s1 = s\<lparr>depthEnabled := enabled,
                  depthStencilState := Some
                    \<lparr>depthWriteEnabled = (dc_depthWriteEnabled config \<noteq> Some False),
                     depthCompare = str_or (dc_compare config) ''less'',
                     ds_format = ''depth24plus-stencil8''\<rparr>\<rparr>
      in if enabled \<and> depthStencilTexture s1 = None
         then wgpu_createDepthStencilTexture s1 else Inr s1)"

definition wgpu_setCullMode :: "string \<Rightarrow> wgpu_renderer \<Rightarrow> wgpu_renderer" where
  "wgpu_setCullMode mode s = s\<lparr>cullMode := mode\<rparr>"

definition wgpu_setClearColor :: "real \<Rightarrow> real \<Rightarrow> real \<Rightarrow> real \<Rightarrow> wgpu_renderer \<Rightarrow> wgpu_renderer" where
  "wgpu_setClearColor r' g' b' a' s = s\<lparr>clearColor := \<lparr>col_r = r', col_g = g', col_b = b', col_a = a'\<rparr>\<rparr>"

subsection \<open>Pipelines and bind groups\<close>

text \<open>
  \<open>getShaderModule_\<close>: the module cached under the exact source text, created on a miss.
  The result is the module and the renderer with the cache updated.
\<close>

definition getShaderModule ::
  "string \<Rightarrow> wgpu_renderer \<Rightarrow> (error \<times> wgpu_renderer) + (nat \<times> wgpu_renderer)" where
  "getShaderModule code s =
     (case map_of (shaderModules s) code of
        Some cached \<Rightarrow> Inr (cached, s)
      | None \<Rightarrow>
          (case device s of
             None \<Rightarrow> Inl (TypeError, s)
           | Some d \<Rightarrow>
               Inr (nextHandle s,
                    s\<lparr>nextHandle := Suc (nextHandle s),
                       shaderModules := AList.update code (nextHandle s) (shaderModules s)\<rparr>)))"

record shader_config =
  vertex :: string
  fragment :: string

record primitive_config =
  pc_topology :: "string option"
  pc_cullMode :: "string option"

record pipeline_config =
  shaders :: shader_config
  cfg_primitive :: "primitive_config option"
  cfg_depthStencil :: "depth_stencil_state option"
  cfg_bindGroupLayouts :: "bind_group_layout list option"

text \<open>
  The descriptor's \<open>primitive\<close> is \<open>{topology: config.primitive?.topology ||
  'triangle-list', cullMode: this.cullMode_, ...config.primitive}\<close>: a key present in
  \<open>config.primitive\<close> overrides the one before it.
\<close>

definition primitive_topology :: "primitive_config option \<Rightarrow> string" where
  "primitive_topology pr =
     (case pr of
        None \<Rightarrow> ''triangle-list''
      | Some c \<Rightarrow> (case pc_topology c of None \<Rightarrow> ''triangle-list'' | Some t \<Rightarrow> t))"

definition primitive_cullMode :: "primitive_config option \<Rightarrow> string \<Rightarrow> string" where
  "primitive_cullMode pr current =
     (case pr of
        None \<Rightarrow> current
      | Some c \<Rightarrow> (case pc_cullMode c of None \<Rightarrow> current | Some m \<Rightarrow> m))"

definition wgpu_createPipeline ::
  "string \<Rightarrow> pipeline_config \<Rightarrow> wgpu_renderer \<Rightarrow> wgpu_renderer outcome" where
  "wgpu_createPipeline name config s =
     (if \<not> isInitialized s then Inl (NotInitialized, s)
      else
        case getShaderModule
               (vertex (shaders config) @ [CHR 0x0A] @ fragment (shaders config)) s of
          Inl x \<Rightarrow> Inl x
        | Inr (shaderModule, s1) \<Rightarrow>
            (case device s1 of
               None \<Rightarrow> Inl (TypeError, s1)
             | Some d \<Rightarrow>
                 let layout = (case cfg_bindGroupLayouts config of
                                 None \<Rightarrow> AutoLayout
                               | Some ls \<Rightarrow> ExplicitLayout ls);
                     pipeline = \<lparr>rp_handle = nextHandle s1, rp_layout = layout,
                       rp_module = shaderModule, rp_target_format = format s1,
                       rp_blend = (if blendEnabled s1 then blendState s1 else None),
                       rp_topology = primitive_topology (cfg_primitive config),
                       rp_cullMode = primitive_cullMode (cfg_primitive config) (cullMode s1),
                       rp_depthStencil =
                         (if depthEnabled s1
                          then (case cfg_depthStencil config of
                                  None \<Rightarrow> depthStencilState s1
                                | Some ds \<Rightarrow> Some ds)
                          else None),
                       rp_multisample = msaaSampleCount s1\<rparr>
                 in Inr (emit (EvPipelineCreated name (cfg_bindGroupLayouts config \<noteq> None))
                      (s1\<lparr>nextHandle := Suc (nextHandle s1),
                          pipelines := AList.update name pipeline (pipelines s1)\<rparr>))))"

definition wgpu_setPipeline :: "string \<Rightarrow> wgpu_renderer \<Rightarrow> wgpu_renderer" where
  "wgpu_setPipeline name s =
     (if Map_has (pipelines s) name
      then emit (EvPipelineSet name) (s\<lparr>currentPipeline := Some name\<rparr>)
      else s)"

definition wgpu_createBindGroupLayout :: "string \<Rightarrow> wgpu_renderer \<Rightarrow> wgpu_renderer outcome" where
  "wgpu_createBindGroupLayout name s =
     (case device s of
        None \<Rightarrow> Inl (TypeError, s)
      | Some d \<Rightarrow>
          Inr (s\<lparr>nextHandle := Suc (nextHandle s),
                 bindGroupLayouts :=
                   AList.update name (CreatedLayout (nextHandle s)) (bindGroupLayouts s)\<rparr>))"

text \<open>\<open>pipeline.getBindGroupLayout(i)\<close>: the layout the pipeline reports at index \<open>i\<close>.\<close>

definition getBindGroupLayout :: "render_pipeline \<Rightarrow> nat \<Rightarrow> bind_group_layout" where
  "getBindGroupLayout pipeline i = PipelineBindGroupLayout (rp_handle pipeline) i"

record bind_group_config =
  bgc_name :: string
  bgc_entries :: "bind_group_entry list"

definition wgpu_createBindGroup ::
  "bind_group_config \<Rightarrow> wgpu_renderer \<Rightarrow> wgpu_renderer outcome" where
  "wgpu_createBindGroup config s =
     (if \<not> isInitialized s then Inl (NotInitialized, s)
      else if \<not> truthy_str (currentPipeline s) then Inl (NoPipelineSet, s)
      else case currentPipeline s of
        None \<Rightarrow> Inl (NoPipelineSet, s)
      | Some current \<Rightarrow>
          (case device s of
             None \<Rightarrow> Inl (TypeError, s)
           | Some d \<Rightarrow>
               (case map_of (pipelines s) current of
                  None \<Rightarrow> Inl (TypeError, s)
                | Some pipeline \<Rightarrow>
                    let bindGroup = \<lparr>bg_handle = nextHandle s,
                          bg_layout = getBindGroupLayout pipeline 0,
                          bg_entries = bgc_entries config\<rparr>
                    in Inr (emit (EvBindGroupCreated (bgc_name config))
                         (s\<lparr>nextHandle := Suc (nextHandle s),
                            bindGroups :=
                              AList.update (bgc_name config) bindGroup (bindGroups s)\<rparr>)))))"

definition wgpu_setBindGroup :: "string \<Rightarrow> nat \<Rightarrow> wgpu_renderer \<Rightarrow> wgpu_renderer outcome" where
  "wgpu_setBindGroup bindGroupName index s =
     (case map_of (bindGroups s) bindGroupName of
        None \<Rightarrow> Inl (NotFound BindGroupRes bindGroupName, s)
      | Some bindGroup \<Rightarrow>
          Inr (s\<lparr>currentBindGroups := AList.update index bindGroup (currentBindGroups s)\<rparr>))"

subsection \<open>Compute\<close>

definition wgpu_createComputePipeline ::
  "string \<Rightarrow> string \<Rightarrow> wgpu_renderer \<Rightarrow> wgpu_renderer outcome" where
  "wgpu_createComputePipeline name computeShader s =
     (if \<not> isInitialized s then Inl (NotInitialized, s)
      else case getShaderModule computeShader s of
        Inl x \<Rightarrow> Inl x
      | Inr (shaderModule, s1) \<Rightarrow>
          (case device s1 of
             None \<Rightarrow> Inl (TypeError, s1)
           | Some d \<Rightarrow>
               Inr (emit (EvComputePipelineCreated name)
                 (s1\<lparr>nextHandle := Suc (nextHandle s1),
                     computePipelines :=
                       AList.update name
                         \<lparr>cp_handle = nextHandle s1, cp_module = shaderModule\<rparr>
                         (computePipelines s1)\<rparr>))))"

text \<open>
  The bindings of a pass: for each \<open>(index, name)\<close> of the caller's object, the native
  object registered under the name, skipped when the name is unknown.
\<close>

definition resolve_bindings ::
  "(string, 'v) jsmap \<Rightarrow> ('v \<Rightarrow> nat) \<Rightarrow> (nat \<times> string) list option \<Rightarrow> (nat \<times> nat) list" where
  "resolve_bindings registry handle_of entries =
     (case entries of
        None \<Rightarrow> []
      | Some es \<Rightarrow>
          List.map_filter
            (\<lambda>(index, name). map_option (\<lambda>v. (index, handle_of v)) (map_of registry name))
            es)"

record dispatch_config =
  workgroupCountX :: nat
  workgroupCountY :: "nat option"
  workgroupCountZ :: "nat option"
  dispatch_bindGroups :: "(nat \<times> string) list option"

definition wgpu_dispatchCompute ::
  "string \<Rightarrow> dispatch_config \<Rightarrow> wgpu_renderer \<Rightarrow> wgpu_renderer outcome" where
  "wgpu_dispatchCompute pipelineName config s =
     (case map_of (computePipelines s) pipelineName of
        None \<Rightarrow> Inl (NotFound ComputePipelineRes pipelineName, s)
      | Some pipeline \<Rightarrow>
          (case device s of
             None \<Rightarrow> Inl (TypeError, s)
           | Some d \<Rightarrow>
               Inr (emit (EvComputeDispatched pipelineName)
                 (s\<lparr>queue := queue s @ [SubmitCompute
                      \<lparr>cpass_pipeline = cp_handle pipeline,
                       cpass_bindGroups =
                         resolve_bindings (bindGroups s) bg_handle (dispatch_bindGroups config),
                       cpass_workgroups =
                         (workgroupCountX config, num_or (workgroupCountY config) 1,
                          num_or (workgroupCountZ config) 1)\<rparr>]\<rparr>))))"

subsection \<open>The frame: \<open>render\<close>\<close>

record draw_call =
  draw_vertexBuffers :: "(nat \<times> string) list option"
  draw_bindGroups :: "(nat \<times> string) list option"
  draw_indexBuffer :: "string option"
  draw_indexCount :: "nat option"
  draw_instanceCount :: "nat option"
  draw_firstIndex :: "nat option"
  draw_baseVertex :: "int option"
  draw_firstInstance :: "nat option"
  draw_vertexCount :: "nat option"
  draw_firstVertex :: "nat option"

definition wgpu_beginFrame :: "wgpu_renderer \<Rightarrow> wgpu_renderer" where
  "wgpu_beginFrame s = s\<lparr>frameCount := Suc (frameCount s)\<rparr>"

text \<open>
  The colour attachment of the pass: its view and its resolve target. \<open>None\<close> is the
  \<open>TypeError\<close> of reading a property of \<open>undefined\<close> or \<open>null\<close> (a current render target
  that is not registered, a missing multisample texture, a missing canvas context).
\<close>

definition color_attachment :: "wgpu_renderer \<Rightarrow> (color_view \<times> color_view option) option" where
  "color_attachment s =
     (let colorView' =
            (if truthy_str (currentRenderTarget s)
             then (case currentRenderTarget s of
                     None \<Rightarrow> None
                   | Some n \<Rightarrow>
                       map_option (\<lambda>m. TextureView (view m)) (map_of (renderTargets s) n))
             else if msaaSampleCount s > 1
               then map_option (\<lambda>m. TextureView (at_view m)) (msaaTexture s)
             else map_option (\<lambda>c. SwapChainView) (gpuContext s));
          resolveTarget' =
            (if msaaSampleCount s > 1 \<and> \<not> truthy_str (currentRenderTarget s)
             then map_option (\<lambda>c. Some SwapChainView) (gpuContext s)
             else Some None)
      in case colorView' of
        None \<Rightarrow> None
      | Some v \<Rightarrow> (case resolveTarget' of None \<Rightarrow> None | Some rt \<Rightarrow> Some (v, rt)))"

text \<open>
  The second look at the render target: when it has its own samples the resolve target
  is cleared.
\<close>

definition own_msaa_resolve :: "wgpu_renderer \<Rightarrow> color_view option \<Rightarrow> color_view option" where
  "own_msaa_resolve s rt =
     (if truthy_str (currentRenderTarget s) \<and> msaaSampleCount s > 1
      then (case currentRenderTarget s of
              None \<Rightarrow> rt
            | Some n \<Rightarrow>
                (case map_of (renderTargets s) n of
                   None \<Rightarrow> rt
                 | Some rtMetadata \<Rightarrow>
                     (case sampleCount rtMetadata of
                        None \<Rightarrow> rt
                      | Some c \<Rightarrow> if c > 1 then None else rt)))
      else rt)"

definition depth_attachment :: "wgpu_renderer \<Rightarrow> depth_stencil_attachment option" where
  "depth_attachment s =
     (if depthEnabled s
      then map_option
             (\<lambda>t. \<lparr>dsa_view = at_view t, depthClearValue = clearDepth s,
                   stencilClearValue = clearStencil s\<rparr>)
             (depthStencilTexture s)
      else None)"

definition int_or :: "int option \<Rightarrow> int \<Rightarrow> int" where
  "int_or v d = (case v of None \<Rightarrow> d | Some n \<Rightarrow> if n = 0 then d else n)"

definition draw_command :: "draw_call \<Rightarrow> wgpu_renderer \<Rightarrow> draw_cmd option" where
  "draw_command drawCall s =
     (case (if truthy_str (draw_indexBuffer drawCall)
            then (case draw_indexBuffer drawCall of
                    None \<Rightarrow> None
                  | Some n \<Rightarrow> map_of (buffers s) n)
            else None) of
        Some bufferMetadata \<Rightarrow>
          Some (DrawIndexed (buffer bufferMetadata)
                  (str_or (indexFormat bufferMetadata) ''uint16'')
                  (num_or (draw_indexCount drawCall) 0)
                  (num_or (draw_instanceCount drawCall) 1)
                  (num_or (draw_firstIndex drawCall) 0)
                  (int_or (draw_baseVertex drawCall) 0)
                  (num_or (draw_firstInstance drawCall) 0))
      | None \<Rightarrow>
          if truthy_num (draw_vertexCount drawCall)
          then Some (Draw (num_or (draw_vertexCount drawCall) 0)
                       (num_or (draw_instanceCount drawCall) 1)
                       (num_or (draw_firstVertex drawCall) 0)
                       (num_or (draw_firstInstance drawCall) 0))
          else None)"

definition wgpu_render :: "draw_call \<Rightarrow> wgpu_renderer \<Rightarrow> wgpu_renderer outcome" where
  "wgpu_render drawCall s0 =
     (let s = wgpu_beginFrame s0 in
      if \<not> isInitialized s then Inr (console_write WarnNotInitialized s)
      else if \<not> truthy_str (currentPipeline s) then Inl (NoPipelineSet, s)
      else case device s of
        None \<Rightarrow> Inl (TypeError, s)
      | Some d \<Rightarrow>
          (case color_attachment s of
             None \<Rightarrow> Inl (TypeError, s)
           | Some (colorView', resolveTarget') \<Rightarrow>
               (case (case currentPipeline s of
                        None \<Rightarrow> None
                      | Some n \<Rightarrow> map_of (pipelines s) n) of
                  None \<Rightarrow> Inl (TypeError, s)
                | Some pipeline \<Rightarrow>
                    let pass = \<lparr>pass_frame = frameCount s, colorView = colorView',
                          resolveTarget = own_msaa_resolve s resolveTarget',
                          clearValue = clearColor s,
                          storeOp = (if msaaSampleCount s > 1 then Discard else Store),
                          depthStencilAttachment = depth_attachment s,
                          pass_pipeline = rp_handle pipeline,
                          pass_vertexBuffers =
                            resolve_bindings (buffers s) buffer (draw_vertexBuffers drawCall),
                          pass_bindGroups =
                            resolve_bindings (bindGroups s) bg_handle (draw_bindGroups drawCall),
                          pass_draw = draw_command drawCall s\<rparr>
                    in Inr (emit (EvFrameRendered (frameCount s))
                         (s\<lparr>queue := queue s @ [SubmitRender pass]\<rparr>)))))"

section \<open>WGLRenderer and WGL2Renderer: the immediate-mode backends\<close>

subsection \<open>The context\<close>

text \<open>
  \<open>getContext\<close> gives \<open>null\<close> or an object; \<open>instanceof\<close> tells its family. The calls
  the renderer makes on its context are kept in order in \<open>gl_calls\<close>.
\<close>

datatype context_family = WebGLRenderingContext | WebGL2RenderingContext | OtherObject

datatype gl_cap = DEPTH_TEST | BLEND | CULL_FACE

text \<open>Constants of the context, as WebGL defines them.\<close>

definition LESS :: nat where "LESS = 0x0201"
definition BACK :: nat where "BACK = 0x0405"
definition SRC_ALPHA :: nat where "SRC_ALPHA = 0x0302"
definition ONE_MINUS_SRC_ALPHA :: nat where "ONE_MINUS_SRC_ALPHA = 0x0303"
definition ARRAY_BUFFER :: nat where "ARRAY_BUFFER = 0x8892"
definition ELEMENT_ARRAY_BUFFER :: nat where "ELEMENT_ARRAY_BUFFER = 0x8893"
definition STATIC_DRAW :: nat where "STATIC_DRAW = 0x88E4"
definition RGBA :: nat where "RGBA = 0x1908"
definition UNSIGNED_BYTE :: nat where "UNSIGNED_BYTE = 0x1401"
definition UNSIGNED_SHORT :: nat where "UNSIGNED_SHORT = 0x1403"
definition FLOAT :: nat where "FLOAT = 0x1406"
definition TRIANGLES :: nat where "TRIANGLES = 4"
definition VERTEX_SHADER :: nat where "VERTEX_SHADER = 0x8B31"
definition FRAGMENT_SHADER :: nat where "FRAGMENT_SHADER = 0x8B30"
definition TEXTURE_2D :: nat where "TEXTURE_2D = 0x0DE1"
definition TEXTURE_MIN_FILTER :: nat where "TEXTURE_MIN_FILTER = 0x2801"
definition TEXTURE_MAG_FILTER :: nat where "TEXTURE_MAG_FILTER = 0x2800"
definition TEXTURE_WRAP_S :: nat where "TEXTURE_WRAP_S = 0x2802"
definition TEXTURE_WRAP_T :: nat where "TEXTURE_WRAP_T = 0x2803"
definition LINEAR :: nat where "LINEAR = 0x2601"
definition CLAMP_TO_EDGE :: nat where "CLAMP_TO_EDGE = 0x812F"

datatype gl_call =
  ClearColor real real real real
  | Enable gl_cap
  | Disable gl_cap
  | DepthFunc nat
  | BlendFunc nat nat
  | CullFace nat
  | CompileShader nat nat string
  | DeleteShader nat
  | LinkProgram nat nat nat
  | DeleteProgram nat
  | UseProgram nat
  | BindBuffer nat "nat option"
  | BufferData nat nat nat
  | BufferSubData nat nat nat
  | DeleteBuffer nat
  | BindTexture nat "nat option"
  | TexParameteri nat nat nat
  | TexImage2D nat nat nat nat nat
  | DeleteTexture nat
  | BindFramebuffer "nat option"
  | FramebufferTexture2D "nat option" nat
  | DeleteFramebuffer nat
  | EnableVertexAttribArray nat
  | VertexAttribPointer nat nat nat bool nat nat
  | DrawElements nat "nat option" nat nat
  | DrawArrays nat nat nat
  | BindVertexArray "nat option"

text \<open>
  What the browser and the driver answer: \<open>getContext\<close> on a throwaway canvas and on
  the renderer's canvas, whether object creation gives \<open>null\<close>, whether a shader
  compiles and a program links, whether the framebuffer is complete, and the value of a
  named property of the context.
\<close>

record gl_platform =
  probe_getContext :: "string \<Rightarrow> context_family option"
  canvas_getContext :: "string \<Rightarrow> context_family option"
  creation_gives_null :: bool
  shader_compiles :: "nat \<Rightarrow> string \<Rightarrow> bool"
  program_links :: "string \<Rightarrow> string \<Rightarrow> bool"
  framebuffer_complete :: bool
  context_property :: "string \<Rightarrow> nat option"

subsection \<open>The renderer\<close>

record gl_options =
  opt_alpha :: bool
  opt_depth :: bool
  opt_stencil :: bool
  opt_antialias :: bool
  opt_premultipliedAlpha :: bool
  opt_preserveDrawingBuffer :: bool

record gl_options_arg =
  arg_alpha :: "bool option"
  arg_depth :: "bool option"
  arg_stencil :: "bool option"
  arg_antialias :: "bool option"
  arg_premultipliedAlpha :: "bool option"
  arg_preserveDrawingBuffer :: "bool option"

record program_metadata =
  program :: nat
  vertexShader :: nat
  fragmentShader :: nat

record gl_buffer_metadata =
  gl_buffer :: nat
  gl_size :: nat
  gl_usage :: nat
  gl_type :: nat

record gl_texture_metadata =
  gl_texture :: nat
  gl_width :: nat
  gl_height :: nat
  gl_format :: nat
  gl_internalFormat :: nat

record blend_func =
  src :: nat
  dst :: nat

text \<open>
  The fields of \<open>WGLRenderer\<close>, named \<open>gl_\<close> and the source's name without the trailing
  underscore; \<open>gl_context\<close> is \<open>context\<close>, the context object by its family. \<open>WGL2Renderer\<close> extends
  the class, and the record.
\<close>

record wgl_renderer = renderer +
  gl_context :: "context_family option"
  gl_options :: gl_options
  gl_programs :: "(string, program_metadata) jsmap"
  gl_buffers :: "(string, gl_buffer_metadata) jsmap"
  gl_textures :: "(string, gl_texture_metadata) jsmap"
  gl_framebuffers :: "(string, nat) jsmap"
  gl_renderbuffers :: "(string, nat) jsmap"
  gl_currentProgram :: "string option"
  gl_clearColor :: color
  gl_frameCount :: nat
  gl_currentFramebuffer :: "string option"
  gl_blendEnabled :: bool
  gl_depthTestEnabled :: bool
  gl_cullFaceEnabled :: bool
  gl_cullFaceMode :: nat
  gl_depthFunc :: nat
  gl_blendFunc :: blend_func
  gl_calls :: "gl_call list"

record wgl2_renderer = wgl_renderer +
  VAOs :: "(string, nat option) jsmap"
  currentVAO :: "string option"
  GL :: "context_family option"

definition WGLRenderer :: "canvas_element \<Rightarrow> gl_options_arg \<Rightarrow> wgl_renderer" where
  "WGLRenderer cv options =
     \<lparr>canvas = cv, isInitialized = False, events = [], console = [], nextHandle = 0,
      gl_context = None,
      gl_options = \<lparr>opt_alpha = (arg_alpha options \<noteq> Some False),
        opt_depth = (arg_depth options \<noteq> Some False),
        opt_stencil = (arg_stencil options = Some True),
        opt_antialias = (arg_antialias options \<noteq> Some False),
        opt_premultipliedAlpha = (arg_premultipliedAlpha options = Some True),
        opt_preserveDrawingBuffer = (arg_preserveDrawingBuffer options = Some True)\<rparr>,
      gl_programs = [], gl_buffers = [], gl_textures = [], gl_framebuffers = [],
      gl_renderbuffers = [], gl_currentProgram = None,
      gl_clearColor = \<lparr>col_r = 0.1, col_g = 0.1, col_b = 0.1, col_a = 1\<rparr>, gl_frameCount = 0,
      gl_currentFramebuffer = None, gl_blendEnabled = False, gl_depthTestEnabled = False,
      gl_cullFaceEnabled = False, gl_cullFaceMode = BACK, gl_depthFunc = LESS,
      gl_blendFunc = \<lparr>src = SRC_ALPHA, dst = ONE_MINUS_SRC_ALPHA\<rparr>, gl_calls = []\<rparr>"

definition WGL2Renderer :: "canvas_element \<Rightarrow> gl_options_arg \<Rightarrow> wgl2_renderer" where
  "WGL2Renderer cv options =
     wgl_renderer.extend (WGLRenderer cv options) \<lparr>VAOs = [], currentVAO = None, GL = None\<rparr>"

definition gl_call :: "gl_call list \<Rightarrow> 'a wgl_renderer_scheme \<Rightarrow> 'a wgl_renderer_scheme" where
  "gl_call cs s = s\<lparr>gl_calls := gl_calls s @ cs\<rparr>"

text \<open>Sequencing of two steps that may throw.\<close>

definition and_then :: "'s outcome \<Rightarrow> ('s \<Rightarrow> 's outcome) \<Rightarrow> 's outcome" where
  "and_then x f = (case x of Inl e \<Rightarrow> Inl e | Inr s \<Rightarrow> f s)"

subsection \<open>Render state\<close>

definition wgl_setClearColor ::
  "real \<Rightarrow> real \<Rightarrow> real \<Rightarrow> real \<Rightarrow> 'a wgl_renderer_scheme \<Rightarrow> 'a wgl_renderer_scheme outcome" where
  "wgl_setClearColor r' g' b' a' s =
     (let s1 = s\<lparr>gl_clearColor := \<lparr>col_r = r', col_g = g', col_b = b', col_a = a'\<rparr>\<rparr> in
      case gl_context s1 of
        None \<Rightarrow> Inl (TypeError, s1)
      | Some c \<Rightarrow> Inr (gl_call [ClearColor r' g' b' a'] s1))"

text \<open>
  A default parameter that reads the context (\<open>func = this.context.LESS\<close>) is evaluated
  on entry when the argument is omitted, before the body runs.
\<close>

definition wgl_setBlendState ::
  "bool \<Rightarrow> blend_func option \<Rightarrow> 'a wgl_renderer_scheme \<Rightarrow> 'a wgl_renderer_scheme outcome" where
  "wgl_setBlendState enabled func s =
     (let func' = (case func of None \<Rightarrow> gl_blendFunc s | Some f \<Rightarrow> f);
          s1 = s\<lparr>gl_blendEnabled := enabled\<rparr>
      in case gl_context s1 of
        None \<Rightarrow> Inl (TypeError, s1)
      | Some c \<Rightarrow>
          if enabled
          then Inr (gl_call [Enable BLEND,
                 BlendFunc (num_or (Some (src func')) SRC_ALPHA)
                   (num_or (Some (dst func')) ONE_MINUS_SRC_ALPHA)] s1)
          else Inr (gl_call [Disable BLEND] s1))"

definition wgl_setDepthTest ::
  "bool \<Rightarrow> nat option \<Rightarrow> 'a wgl_renderer_scheme \<Rightarrow> 'a wgl_renderer_scheme outcome" where
  "wgl_setDepthTest enabled func s =
     (case (case func of None \<Rightarrow> map_option (\<lambda>c. LESS) (gl_context s) | Some f \<Rightarrow> Some f) of
        None \<Rightarrow> Inl (TypeError, s)
      | Some func' \<Rightarrow>
          let s1 = s\<lparr>gl_depthTestEnabled := enabled, gl_depthFunc := func'\<rparr> in
          (case gl_context s1 of
             None \<Rightarrow> Inl (TypeError, s1)
           | Some c \<Rightarrow>
               if enabled then Inr (gl_call [Enable DEPTH_TEST, DepthFunc func'] s1)
               else Inr (gl_call [Disable DEPTH_TEST] s1)))"

definition wgl_setCullFace ::
  "bool \<Rightarrow> nat option \<Rightarrow> 'a wgl_renderer_scheme \<Rightarrow> 'a wgl_renderer_scheme outcome" where
  "wgl_setCullFace enabled mode s =
     (case (case mode of None \<Rightarrow> map_option (\<lambda>c. BACK) (gl_context s) | Some m \<Rightarrow> Some m) of
        None \<Rightarrow> Inl (TypeError, s)
      | Some mode' \<Rightarrow>
          let s1 = s\<lparr>gl_cullFaceEnabled := enabled, gl_cullFaceMode := mode'\<rparr> in
          (case gl_context s1 of
             None \<Rightarrow> Inl (TypeError, s1)
           | Some c \<Rightarrow>
               if enabled then Inr (gl_call [Enable CULL_FACE, CullFace mode'] s1)
               else Inr (gl_call [Disable CULL_FACE] s1)))"

subsection \<open>Capability probe and initialization\<close>

text \<open>\<open>a || b\<close> on two context lookups: an object is truthy, \<open>null\<close> is not.\<close>

definition first_context :: "context_family option \<Rightarrow> context_family option \<Rightarrow> context_family option" where
  "first_context x y = (case x of None \<Rightarrow> y | Some c \<Rightarrow> Some c)"

definition wgl_isSupported :: "gl_platform \<Rightarrow> bool" where
  "wgl_isSupported p =
     (let gl = first_context (probe_getContext p ''webgl'')
                 (probe_getContext p ''experimental-webgl'')
      in gl \<noteq> None \<and> gl = Some WebGLRenderingContext)"

definition wgl2_isSupported :: "gl_platform \<Rightarrow> bool" where
  "wgl2_isSupported p =
     (let gl = probe_getContext p ''webgl2''
      in gl \<noteq> None \<and> gl = Some WebGL2RenderingContext)"

definition wgl_initialize_catch ::
  "error \<Rightarrow> 'a wgl_renderer_scheme \<Rightarrow> 'a wgl_renderer_scheme outcome" where
  "wgl_initialize_catch e s =
     Inl (e, emit (EvError e) (console_write (ErrorFailedToInitialize e) s))"

text \<open>The body of the \<open>try\<close> once the context is stored, shared by both classes.\<close>

definition initial_state :: "'a wgl_renderer_scheme \<Rightarrow> 'a wgl_renderer_scheme outcome" where
  "initial_state s =
     and_then
       (wgl_setClearColor (col_r (gl_clearColor s)) (col_g (gl_clearColor s))
          (col_b (gl_clearColor s)) (col_a (gl_clearColor s)) s)
       (\<lambda>s1. and_then (wgl_setDepthTest (gl_depthTestEnabled s1) None s1)
          (\<lambda>s2. and_then (wgl_setBlendState (gl_blendEnabled s2) None s2)
             (\<lambda>s3. wgl_setCullFace (gl_cullFaceEnabled s3) (Some (gl_cullFaceMode s3)) s3)))"

definition wgl_initialize ::
  "gl_platform \<Rightarrow> 'a wgl_renderer_scheme \<Rightarrow> 'a wgl_renderer_scheme outcome" where
  "wgl_initialize p s =
     (if \<not> wgl_isSupported p then Inl (UnsupportedBackend, s)
      else
        let s1 = s\<lparr>gl_context := first_context (canvas_getContext p ''webgl'')
                     (canvas_getContext p ''experimental-webgl'')\<rparr>
        in if gl_context s1 = None then wgl_initialize_catch ContextAcquisitionFailed s1
           else case initial_state s1 of
             Inl (e, s2) \<Rightarrow> wgl_initialize_catch e s2
           | Inr s2 \<Rightarrow> Inr (emit EvInitialized (s2\<lparr>isInitialized := True\<rparr>)))"

definition wgl2_initialize :: "gl_platform \<Rightarrow> wgl2_renderer \<Rightarrow> wgl2_renderer outcome" where
  "wgl2_initialize p s =
     (if \<not> wgl2_isSupported p then Inl (UnsupportedBackend, s)
      else
        let s1 = s\<lparr>gl_context := canvas_getContext p ''webgl2''\<rparr>
        in if gl_context s1 = None then wgl_initialize_catch ContextAcquisitionFailed s1
           else case initial_state (s1\<lparr>GL := gl_context s1\<rparr>) of
             Inl (e, s2) \<Rightarrow> wgl_initialize_catch e s2
           | Inr s2 \<Rightarrow> Inr (emit EvInitialized (s2\<lparr>isInitialized := True\<rparr>)))"

subsection \<open>Programs\<close>

text \<open>
  \<open>compileShader_\<close> gives the shader and the renderer after the calls. A \<open>null\<close> from
  \<open>createShader\<close> or \<open>createProgram\<close> is not checked by the source and makes the next
  call on it throw.
\<close>

definition compileShader ::
  "gl_platform \<Rightarrow> nat \<Rightarrow> string \<Rightarrow> 'a wgl_renderer_scheme
     \<Rightarrow> (error \<times> 'a wgl_renderer_scheme) + (nat \<times> 'a wgl_renderer_scheme)" where
  "compileShader p type source s =
     (case gl_context s of
        None \<Rightarrow> Inl (TypeError, s)
      | Some c \<Rightarrow>
          if creation_gives_null p then Inl (TypeError, s)
          else
            let shader = nextHandle s;
                s1 = gl_call [CompileShader shader type source]
                       (s\<lparr>nextHandle := Suc (nextHandle s)\<rparr>)
            in if \<not> shader_compiles p type source
               then Inl (CompileOrLinkFailed, gl_call [DeleteShader shader] s1)
               else Inr (shader, s1))"

text \<open>
  The body of the \<open>try\<close> of \<open>createProgram\<close>. The attribute and uniform location caches
  of the metadata start empty and are filled by methods that are not modelled.
\<close>

definition createProgram_try ::
  "gl_platform \<Rightarrow> string \<Rightarrow> shader_config \<Rightarrow> 'a wgl_renderer_scheme
     \<Rightarrow> 'a wgl_renderer_scheme outcome" where
  "createProgram_try p name shaders' s =
     (case compileShader p VERTEX_SHADER (vertex shaders') s of
        Inl x \<Rightarrow> Inl x
      | Inr (vs, s1) \<Rightarrow>
          (case compileShader p FRAGMENT_SHADER (fragment shaders') s1 of
             Inl x \<Rightarrow> Inl x
           | Inr (fs, s2) \<Rightarrow>
               if creation_gives_null p then Inl (TypeError, s2)
               else
                 let prog = nextHandle s2;
                     s3 = gl_call [LinkProgram prog vs fs] (s2\<lparr>nextHandle := Suc prog\<rparr>)
                 in if \<not> program_links p (vertex shaders') (fragment shaders')
                    then Inl (CompileOrLinkFailed, s3)
                    else Inr (emit (EvProgramCreated name)
                           (s3\<lparr>gl_programs := AList.update name
                                 \<lparr>program = prog, vertexShader = vs, fragmentShader = fs\<rparr>
                                 (gl_programs s3)\<rparr>))))"

definition wgl_createProgram ::
  "gl_platform \<Rightarrow> string \<Rightarrow> shader_config \<Rightarrow> 'a wgl_renderer_scheme
     \<Rightarrow> 'a wgl_renderer_scheme outcome" where
  "wgl_createProgram p name shaders' s =
     (if \<not> isInitialized s then Inl (NotInitialized, s)
      else case createProgram_try p name shaders' s of
        Inl (e, s1) \<Rightarrow>
          Inl (e, emit (EvError e) (console_write (ErrorFailedToCreateProgram name e) s1))
      | Inr s1 \<Rightarrow> Inr s1)"

definition wgl_useProgram ::
  "string \<Rightarrow> 'a wgl_renderer_scheme \<Rightarrow> 'a wgl_renderer_scheme outcome" where
  "wgl_useProgram name s =
     (case map_of (gl_programs s) name of
        None \<Rightarrow> Inl (NotFound ProgramRes name, s)
      | Some programMetadata \<Rightarrow>
          if gl_currentProgram s \<noteq> Some name
          then (case gl_context s of
                  None \<Rightarrow> Inl (TypeError, s)
                | Some c \<Rightarrow>
                    Inr (emit (EvProgramSet name)
                      ((gl_call [UseProgram (program programMetadata)] s)
                         \<lparr>gl_currentProgram := Some name\<rparr>)))
          else Inr s)"

subsection \<open>Buffers\<close>

record gl_buffer_config =
  gbc_name :: string
  gbc_data :: buffer_source
  gbc_usage :: "nat option"
  gbc_type :: "nat option"

definition wgl_createBuffer ::
  "gl_platform \<Rightarrow> gl_buffer_config \<Rightarrow> 'a wgl_renderer_scheme
     \<Rightarrow> 'a wgl_renderer_scheme outcome" where
  "wgl_createBuffer p config s =
     (if \<not> isInitialized s then Inl (NotInitialized, s)
      else case gl_context s of
        None \<Rightarrow> Inl (TypeError, s)
      | Some c \<Rightarrow>
          if creation_gives_null p then Inl (AllocationFailed, s)
          else
            let buffer' = nextHandle s;
                type = num_or (gbc_type config) ARRAY_BUFFER;
                usage' = num_or (gbc_usage config) STATIC_DRAW;
                metadata = \<lparr>gl_buffer = buffer', gl_size = byteLength (gbc_data config),
                  gl_usage = usage', gl_type = type\<rparr>
            in Inr (emit (EvBufferCreated (gbc_name config) (byteLength (gbc_data config)))
                 ((gl_call [BindBuffer type (Some buffer'),
                            BufferData type (byteLength (gbc_data config)) usage',
                            BindBuffer type None] s)
                    \<lparr>nextHandle := Suc buffer',
                     gl_buffers := AList.update (gbc_name config) metadata (gl_buffers s)\<rparr>)))"

definition wgl_updateBuffer ::
  "string \<Rightarrow> buffer_source \<Rightarrow> nat \<Rightarrow> 'a wgl_renderer_scheme
     \<Rightarrow> 'a wgl_renderer_scheme outcome" where
  "wgl_updateBuffer name data offset s =
     (case map_of (gl_buffers s) name of
        None \<Rightarrow> Inl (NotFound BufferRes name, s)
      | Some bufferMetadata \<Rightarrow>
          (case gl_context s of
             None \<Rightarrow> Inl (TypeError, s)
           | Some c \<Rightarrow>
               Inr (emit (EvBufferUpdated name offset (byteLength data))
                 (gl_call
                    [BindBuffer (gl_type bufferMetadata) (Some (gl_buffer bufferMetadata)),
                     (if offset = 0 \<and> byteLength data = gl_size bufferMetadata
                      then BufferData (gl_type bufferMetadata) (byteLength data)
                             (gl_usage bufferMetadata)
                      else BufferSubData (gl_type bufferMetadata) offset (byteLength data)),
                     BindBuffer (gl_type bufferMetadata) None] s))))"

subsection \<open>Textures and framebuffers\<close>

record gl_texture_config =
  gtc_name :: string
  gtc_width :: nat
  gtc_height :: nat
  gtc_format :: "nat option"
  gtc_internalFormat :: "nat option"
  gtc_type :: "nat option"
  gtc_parameters :: "(string \<times> nat) list option"

definition texture_parameters :: "gl_platform \<Rightarrow> (string \<times> nat) list option \<Rightarrow> gl_call list" where
  "texture_parameters p params =
     (case params of
        Some ps \<Rightarrow>
          List.map_filter
            (\<lambda>(pname, pvalue).
               map_option (\<lambda>param. TexParameteri TEXTURE_2D param pvalue)
                 (context_property p pname))
            ps
      | None \<Rightarrow>
          [TexParameteri TEXTURE_2D TEXTURE_MIN_FILTER LINEAR,
           TexParameteri TEXTURE_2D TEXTURE_MAG_FILTER LINEAR,
           TexParameteri TEXTURE_2D TEXTURE_WRAP_S CLAMP_TO_EDGE,
           TexParameteri TEXTURE_2D TEXTURE_WRAP_T CLAMP_TO_EDGE])"

definition wgl_createTexture ::
  "gl_platform \<Rightarrow> gl_texture_config \<Rightarrow> 'a wgl_renderer_scheme
     \<Rightarrow> 'a wgl_renderer_scheme outcome" where
  "wgl_createTexture p config s =
     (if \<not> isInitialized s then Inl (NotInitialized, s)
      else case gl_context s of
        None \<Rightarrow> Inl (TypeError, s)
      | Some c \<Rightarrow>
          if creation_gives_null p then Inl (AllocationFailed, s)
          else
            let texture' = nextHandle s;
                format' = num_or (gtc_format config) RGBA;
                internalFormat = num_or (gtc_internalFormat config) RGBA;
                type = num_or (gtc_type config) UNSIGNED_BYTE;
                metadata = \<lparr>gl_texture = texture', gl_width = gtc_width config,
                  gl_height = gtc_height config, gl_format = format',
                  gl_internalFormat = internalFormat\<rparr>
            in Inr (emit (EvTextureCreated (gtc_name config) (gtc_width config)
                      (gtc_height config))
                 ((gl_call ([BindTexture TEXTURE_2D (Some texture')]
                      @ texture_parameters p (gtc_parameters config)
                      @ [TexImage2D internalFormat (gtc_width config) (gtc_height config)
                           format' type,
                         BindTexture TEXTURE_2D None]) s)
                    \<lparr>nextHandle := Suc texture',
                     gl_textures := AList.update (gtc_name config) metadata (gl_textures s)\<rparr>)))"

definition wgl_bindTexture ::
  "string \<Rightarrow> nat option \<Rightarrow> 'a wgl_renderer_scheme \<Rightarrow> 'a wgl_renderer_scheme outcome" where
  "wgl_bindTexture name target s =
     (case (case target of
              None \<Rightarrow> map_option (\<lambda>c. TEXTURE_2D) (gl_context s)
            | Some t \<Rightarrow> Some t) of
        None \<Rightarrow> Inl (TypeError, s)
      | Some target' \<Rightarrow>
          (case map_of (gl_textures s) name of
             None \<Rightarrow> Inl (NotFound TextureRes name, s)
           | Some textureMetadata \<Rightarrow>
               (case gl_context s of
                  None \<Rightarrow> Inl (TypeError, s)
                | Some c \<Rightarrow>
                    Inr (gl_call [BindTexture target' (Some (gl_texture textureMetadata))] s))))"

definition wgl_createFramebuffer ::
  "gl_platform \<Rightarrow> string \<Rightarrow> (string \<times> string) list \<Rightarrow> 'a wgl_renderer_scheme
     \<Rightarrow> 'a wgl_renderer_scheme outcome" where
  "wgl_createFramebuffer p name attachments s =
     (case gl_context s of
        None \<Rightarrow> Inl (TypeError, s)
      | Some c \<Rightarrow>
          if creation_gives_null p then Inl (AllocationFailed, s)
          else
            let framebuffer = nextHandle s;
                s1 = gl_call
                       ([BindFramebuffer (Some framebuffer)]
                        @ List.map_filter
                            (\<lambda>(attachmentPoint, attachmentName).
                               map_option
                                 (\<lambda>textureMetadata.
                                    FramebufferTexture2D (context_property p attachmentPoint)
                                      (gl_texture textureMetadata))
                                 (map_of (gl_textures s) attachmentName))
                            attachments)
                       (s\<lparr>nextHandle := Suc framebuffer\<rparr>)
            in if \<not> framebuffer_complete p
               then Inl (FramebufferIncomplete, gl_call [BindFramebuffer None] s1)
               else Inr (emit (EvFramebufferCreated name)
                      (gl_call [BindFramebuffer None]
                         (s1\<lparr>gl_framebuffers :=
                               AList.update name framebuffer (gl_framebuffers s1)\<rparr>))))"

definition wgl_setFramebuffer ::
  "string option \<Rightarrow> 'a wgl_renderer_scheme \<Rightarrow> 'a wgl_renderer_scheme outcome" where
  "wgl_setFramebuffer name s =
     (if truthy_str name \<and> \<not> Map_has (gl_framebuffers s) (str_or name [])
      then Inl (NotFound FramebufferRes (str_or name []), s)
      else case gl_context s of
        None \<Rightarrow> Inl (TypeError, s)
      | Some c \<Rightarrow>
          Inr ((gl_call
                  [BindFramebuffer
                     (if truthy_str name then map_of (gl_framebuffers s) (str_or name [])
                      else None)] s)
                 \<lparr>gl_currentFramebuffer := name\<rparr>))"

subsection \<open>Drawing and the frame\<close>

record vertex_attribute =
  attr_location :: nat
  attr_size :: nat
  attr_type :: "nat option"
  attr_normalized :: "bool option"
  attr_stride :: "nat option"
  attr_offset :: "nat option"

record gl_draw_call =
  gdc_mode :: "nat option"
  gdc_count :: "nat option"
  gdc_indices :: "string option"
  gdc_offset :: "nat option"
  gdc_type :: "nat option"
  gdc_attributes :: "(string \<times> vertex_attribute list) list option"

definition value_or :: "'v option \<Rightarrow> 'v \<Rightarrow> 'v" where
  "value_or v d = (case v of None \<Rightarrow> d | Some x \<Rightarrow> x)"

definition attribute_calls :: "vertex_attribute \<Rightarrow> gl_call list" where
  "attribute_calls attr =
     [EnableVertexAttribArray (attr_location attr),
      VertexAttribPointer (attr_location attr) (attr_size attr)
        (num_or (attr_type attr) FLOAT) (attr_normalized attr = Some True)
        (num_or (attr_stride attr) 0) (num_or (attr_offset attr) 0)]"

text \<open>The calls of \<open>draw\<close> on the context, in order.\<close>

definition draw_calls :: "gl_draw_call \<Rightarrow> 'a wgl_renderer_scheme \<Rightarrow> gl_call list" where
  "draw_calls drawCall s =
     concat
       (List.map_filter
          (\<lambda>(bufferName, attributes).
             map_option
               (\<lambda>bufferMetadata.
                  BindBuffer ARRAY_BUFFER (Some (gl_buffer bufferMetadata))
                  # concat (map attribute_calls attributes))
               (map_of (gl_buffers s) bufferName))
          (value_or (gdc_attributes drawCall) []))
     @ (if truthy_str (gdc_indices drawCall)
        then (case map_of (gl_buffers s) (str_or (gdc_indices drawCall) []) of
                None \<Rightarrow> []
              | Some bufferMetadata \<Rightarrow>
                  [BindBuffer ELEMENT_ARRAY_BUFFER (Some (gl_buffer bufferMetadata)),
                   DrawElements (value_or (gdc_mode drawCall) TRIANGLES) (gdc_count drawCall)
                     (value_or (gdc_type drawCall) UNSIGNED_SHORT)
                     (value_or (gdc_offset drawCall) 0)])
        else if truthy_num (gdc_count drawCall)
          then [DrawArrays (value_or (gdc_mode drawCall) TRIANGLES)
                  (value_or (gdc_offset drawCall) 0) (num_or (gdc_count drawCall) 0)]
        else [])"

text \<open>
  \<open>draw\<close> reads the context for an omitted \<open>mode\<close> or \<open>type\<close> and for every call it
  makes: without a context that first read throws.
\<close>

definition wgl_draw ::
  "gl_draw_call \<Rightarrow> 'a wgl_renderer_scheme \<Rightarrow> 'a wgl_renderer_scheme outcome" where
  "wgl_draw drawCall s =
     (if \<not> isInitialized s then Inr (console_write WarnNotInitialized s)
      else if \<not> truthy_str (gl_currentProgram s) then Inl (NoProgramSet, s)
      else if gl_context s = None
              \<and> (gdc_mode drawCall = None \<or> gdc_type drawCall = None
                  \<or> draw_calls drawCall s \<noteq> [])
        then Inl (TypeError, s)
      else Inr (emit EvDraw (gl_call (draw_calls drawCall s) s)))"

definition wgl_render :: "'a wgl_renderer_scheme \<Rightarrow> 'a wgl_renderer_scheme outcome" where
  "wgl_render s =
     Inr (emit (EvFrameRendered (Suc (gl_frameCount s)))
            (s\<lparr>gl_frameCount := Suc (gl_frameCount s)\<rparr>))"

subsection \<open>Destroying\<close>

text \<open>
  Each \<open>forEach\<close> of \<open>destroy\<close> calls the context once per entry, and throws at the first
  entry when there is no context; the registry is cleared after its loop.
\<close>

definition delete_all ::
  "('a wgl_renderer_scheme \<Rightarrow> gl_call list) \<Rightarrow> ('a wgl_renderer_scheme \<Rightarrow> 'a wgl_renderer_scheme)
     \<Rightarrow> 'a wgl_renderer_scheme \<Rightarrow> 'a wgl_renderer_scheme outcome" where
  "delete_all calls clear s =
     (if calls s \<noteq> [] \<and> gl_context s = None then Inl (TypeError, s)
      else Inr (clear (gl_call (calls s) s)))"

definition wgl_destroy :: "'a wgl_renderer_scheme \<Rightarrow> 'a wgl_renderer_scheme outcome" where
  "wgl_destroy s =
     and_then
       (delete_all
          (\<lambda>s. concat (map (\<lambda>(name, m). [DeleteProgram (program m),
                  DeleteShader (vertexShader m), DeleteShader (fragmentShader m)])
                (gl_programs s)))
          (\<lambda>s. s\<lparr>gl_programs := []\<rparr>) s)
       (\<lambda>s1. and_then
          (delete_all (\<lambda>s. map (\<lambda>(name, m). DeleteBuffer (gl_buffer m)) (gl_buffers s))
             (\<lambda>s. s\<lparr>gl_buffers := []\<rparr>) s1)
          (\<lambda>s2. and_then
             (delete_all (\<lambda>s. map (\<lambda>(name, m). DeleteTexture (gl_texture m)) (gl_textures s))
                (\<lambda>s. s\<lparr>gl_textures := []\<rparr>) s2)
             (\<lambda>s3. and_then
                (delete_all (\<lambda>s. map (\<lambda>(name, fb). DeleteFramebuffer fb) (gl_framebuffers s))
                   (\<lambda>s. s\<lparr>gl_framebuffers := []\<rparr>) s3)
                (\<lambda>s4. Inr (emit EvDestroyed
                   (s4\<lparr>gl_context := None, isInitialized := False\<rparr>))))))"

subsection \<open>Vertex array objects of WGL2Renderer\<close>

definition wgl2_createVAO :: "gl_platform \<Rightarrow> string \<Rightarrow> wgl2_renderer \<Rightarrow> wgl2_renderer outcome" where
  "wgl2_createVAO p name s =
     (if \<not> isInitialized s then Inl (NotInitialized, s)
      else case gl_context s of
        None \<Rightarrow> Inl (TypeError, s)
      | Some c \<Rightarrow>
          if creation_gives_null p
          then Inr (s\<lparr>VAOs := AList.update name None (VAOs s)\<rparr>)
          else Inr (s\<lparr>nextHandle := Suc (nextHandle s),
                      VAOs := AList.update name (Some (nextHandle s)) (VAOs s)\<rparr>))"

definition vao_object :: "wgl2_renderer \<Rightarrow> string option \<Rightarrow> nat option" where
  "vao_object s name =
     (if truthy_str name
      then (case map_of (VAOs s) (str_or name []) of None \<Rightarrow> None | Some v \<Rightarrow> v)
      else None)"

definition wgl2_bindVAO :: "string option \<Rightarrow> wgl2_renderer \<Rightarrow> wgl2_renderer outcome" where
  "wgl2_bindVAO name s =
     (if truthy_str name \<and> \<not> Map_has (VAOs s) (str_or name [])
      then Inl (NotFound VAORes (str_or name []), s)
      else case gl_context s of
        None \<Rightarrow> Inl (TypeError, s)
      | Some c \<Rightarrow>
          Inr ((gl_call [BindVertexArray (vao_object s name)] s)
                 \<lparr>currentVAO := (if truthy_str name then name else None)\<rparr>))"

definition wgl2_draw :: "gl_draw_call \<Rightarrow> wgl2_renderer \<Rightarrow> wgl2_renderer outcome" where
  "wgl2_draw drawCall s =
     (if truthy_str (currentVAO s)
      then (case gl_context s of
              None \<Rightarrow> Inl (TypeError, s)
            | Some c \<Rightarrow>
                (case wgl_draw drawCall
                        (gl_call [BindVertexArray (vao_object s (currentVAO s))] s) of
                   Inl x \<Rightarrow> Inl x
                 | Inr s1 \<Rightarrow> Inr (gl_call [BindVertexArray None] s1)))
      else wgl_draw drawCall s)"

section \<open>An invariant of the texture registry\<close>

text \<open>
  Every registered texture and view is a handle
  the device has already handed out, and the stored format and usage are truthy (the
  defaults of \<open>createTexture\<close> see to it).
\<close>

definition textures_wf :: "wgpu_renderer \<Rightarrow> bool" where
  "textures_wf s =
     (\<forall>(name, m) \<in> set (textures s).
        texture m < nextHandle s \<and> view m < nextHandle s
        \<and> tex_format m \<noteq> [] \<and> tex_usage m \<noteq> 0)"

section \<open>Example renderers\<close>

text \<open>
  Concrete browsers and renderers, on which the theorems below are exercised: a canvas
  of the default size, browsers that grant everything or withhold something, and
  renderers as the operations leave them (the lemmas of the next section show that
  they are reached).
\<close>

definition example_canvas :: canvas_element where
  "example_canvas = \<lparr>canvas_width = 300, canvas_height = 150\<rparr>"

definition gpu_browser :: gpu_platform where
  "gpu_browser = \<lparr>navigator_defined = True, navigator_gpu_defined = True,
     GPUAdapter_defined = True, GPUDevice_defined = True, adapter_granted = True,
     device_granted = True, webgpu_context_granted = True,
     preferredCanvasFormat = ''bgra8unorm''\<rparr>"

definition wgpu_ready :: wgpu_renderer where
  "wgpu_ready = (WGPURenderer example_canvas)\<lparr>isInitialized := True,
     events := [EvInitialized], nextHandle := 2, device := Some 0, gpuContext := Some 1,
     format := Some ''bgra8unorm''\<rparr>"

definition example_pipeline :: render_pipeline where
  "example_pipeline = \<lparr>rp_handle = 3, rp_layout = AutoLayout, rp_module = 2,
     rp_target_format = Some ''bgra8unorm'', rp_blend = None,
     rp_topology = ''triangle-list'', rp_cullMode = ''none'', rp_depthStencil = None,
     rp_multisample = 1\<rparr>"

definition wgpu_painting :: wgpu_renderer where
  "wgpu_painting = wgpu_ready\<lparr>events := [EvInitialized, EvPipelineCreated ''p'' False,
       EvPipelineSet ''p''],
     nextHandle := 4, pipelines := [(''p'', example_pipeline)],
     currentPipeline := Some ''p'', shaderModules := [(''v'' @ [CHR 0x0A] @ ''f'', 2)]\<rparr>"

definition example_pipeline_config :: pipeline_config where
  "example_pipeline_config = \<lparr>shaders = \<lparr>vertex = ''v'', fragment = ''f''\<rparr>,
     cfg_primitive = None, cfg_depthStencil = None, cfg_bindGroupLayouts = None\<rparr>"

definition no_draw :: draw_call where
  "no_draw = \<lparr>draw_vertexBuffers = None, draw_bindGroups = None, draw_indexBuffer = None,
     draw_indexCount = None, draw_instanceCount = None, draw_firstIndex = None,
     draw_baseVertex = None, draw_firstInstance = None, draw_vertexCount = None,
     draw_firstVertex = None\<rparr>"

definition default_options :: gl_options_arg where
  "default_options = \<lparr>arg_alpha = None, arg_depth = None, arg_stencil = None,
     arg_antialias = None, arg_premultipliedAlpha = None, arg_preserveDrawingBuffer = None\<rparr>"

definition wgl_ready :: wgl_renderer where
  "wgl_ready = (WGLRenderer example_canvas default_options)\<lparr>isInitialized := True,
     events := [EvInitialized], gl_context := Some WebGLRenderingContext,
     gl_calls := [ClearColor 0.1 0.1 0.1 1, Disable DEPTH_TEST, Disable BLEND,
       Disable CULL_FACE]\<rparr>"

definition no_gl_draw :: gl_draw_call where
  "no_gl_draw = \<lparr>gdc_mode = None, gdc_count = None, gdc_indices = None, gdc_offset = None,
     gdc_type = None, gdc_attributes = None\<rparr>"

definition gl_browser :: gl_platform where
  "gl_browser = \<lparr>
     probe_getContext = (\<lambda>contextId.
       if contextId = ''webgl'' then Some WebGLRenderingContext
       else if contextId = ''webgl2'' then Some WebGL2RenderingContext else None),
     canvas_getContext = (\<lambda>contextId.
       if contextId = ''webgl'' then Some WebGLRenderingContext
       else if contextId = ''webgl2'' then Some WebGL2RenderingContext else None),
     creation_gives_null = False, shader_compiles = (\<lambda>type source. True),
     program_links = (\<lambda>vs fs. True), framebuffer_complete = True,
     context_property = (\<lambda>name. None)\<rparr>"

definition wgl2_ready :: wgl2_renderer where
  "wgl2_ready = (WGL2Renderer example_canvas default_options)\<lparr>isInitialized := True,
     events := [EvInitialized], gl_context := Some WebGL2RenderingContext,
     gl_calls := [ClearColor 0.1 0.1 0.1 1, Disable DEPTH_TEST, Disable BLEND,
       Disable CULL_FACE],
     GL := Some WebGL2RenderingContext\<rparr>"

definition wgl2_vao :: wgl2_renderer where
  "wgl2_vao = wgl2_ready\<lparr>nextHandle := 1,
     gl_calls := [ClearColor 0.1 0.1 0.1 1, Disable DEPTH_TEST, Disable BLEND,
       Disable CULL_FACE, BindVertexArray (Some 0)],
     VAOs := [(''v'', Some 0)], currentVAO := Some ''v''\<rparr>"

definition default_blend_config :: blend_config where
  "default_blend_config = \<lparr>bcfg_srcFactor = None, bcfg_dstFactor = None,
     bcfg_colorOperation = None, bcfg_alphaSrcFactor = None, bcfg_alphaDstFactor = None,
     bcfg_alphaOperation = None\<rparr>"

definition example_texture :: texture_metadata where
  "example_texture = \<lparr>texture = 2, view = 3, width = 4, height = 4,
     tex_format = ''rgba8unorm'', tex_usage = 6, sampleCount = None\<rparr>"

definition wgpu_textured :: wgpu_renderer where
  "wgpu_textured = wgpu_ready\<lparr>events := [EvInitialized, EvTextureCreated ''t'' 4 4],
     nextHandle := 4, textures := [(''t'', example_texture)]\<rparr>"

definition example_texture_config :: texture_config where
  "example_texture_config = \<lparr>tc_name = ''t'', tc_width = 4, tc_height = 4,
     tc_format = None, tc_usage = None\<rparr>"

definition example_gl_buffer :: gl_buffer_metadata where
  "example_gl_buffer = \<lparr>gl_buffer = 0, gl_size = 8, gl_usage = STATIC_DRAW,
     gl_type = ARRAY_BUFFER\<rparr>"

definition wgl_buffered :: wgl_renderer where
  "wgl_buffered = wgl_ready\<lparr>events := [EvInitialized, EvBufferCreated ''b'' 8],
     nextHandle := 1, gl_buffers := [(''b'', example_gl_buffer)],
     gl_calls := [ClearColor 0.1 0.1 0.1 1, Disable DEPTH_TEST, Disable BLEND,
       Disable CULL_FACE, BindBuffer ARRAY_BUFFER (Some 0),
       BufferData ARRAY_BUFFER 8 STATIC_DRAW, BindBuffer ARRAY_BUFFER None]\<rparr>"

definition example_gl_buffer_config :: gl_buffer_config where
  "example_gl_buffer_config = \<lparr>gbc_name = ''b'', gbc_data = ArrayBuffer 8,
     gbc_usage = None, gbc_type = None\<rparr>"

definition wgl_destroyed :: wgl_renderer where
  "wgl_destroyed = wgl_buffered\<lparr>isInitialized := False,
     events := [EvInitialized, EvBufferCreated ''b'' 8, EvDestroyed],
     gl_context := None, gl_buffers := [],
     gl_calls := gl_calls wgl_buffered @ [DeleteBuffer 0]\<rparr>"

definition gpu_without_adapter :: gpu_platform where
  "gpu_without_adapter = gpu_browser\<lparr>adapter_granted := False, device_granted := False,
     webgpu_context_granted := False\<rparr>"

definition example_bind_group_config :: bind_group_config where
  "example_bind_group_config = \<lparr>bgc_name = ''g'',
     bgc_entries = [\<lparr>binding = 0, resource = 7\<rparr>]\<rparr>"

definition no_dispatch :: dispatch_config where
  "no_dispatch = \<lparr>workgroupCountX = 1, workgroupCountY = None, workgroupCountZ = None,
     dispatch_bindGroups = None\<rparr>"

definition example_msaa_texture :: attachment_metadata where
  "example_msaa_texture = \<lparr>at_texture = 2, at_view = 3, at_width = 300, at_height = 150,
     at_format = Some ''bgra8unorm'', at_usage = 16, at_sampleCount = Some 4\<rparr>"

definition example_bind_group :: bind_group where
  "example_bind_group = \<lparr>bg_handle = 4, bg_layout = getBindGroupLayout example_pipeline 0,
     bg_entries = [\<lparr>binding = 0, resource = 7\<rparr>]\<rparr>"

definition wgpu_grouped :: wgpu_renderer where
  "wgpu_grouped = wgpu_painting\<lparr>
     events := [EvInitialized, EvPipelineCreated ''p'' False, EvPipelineSet ''p'',
       EvBindGroupCreated ''g''],
     nextHandle := 5, bindGroups := [(''g'', example_bind_group)]\<rparr>"

definition wgpu_multisampled :: wgpu_renderer where
  "wgpu_multisampled = wgpu_ready\<lparr>events := [EvInitialized, EvMsaaChanged 4],
     nextHandle := 4, msaaSampleCount := 4, msaaTexture := Some example_msaa_texture\<rparr>"

definition gl_fallback_browser :: gl_platform where
  "gl_fallback_browser = gl_browser\<lparr>
     probe_getContext := (\<lambda>contextId.
       if contextId = ''webgl2'' then Some WebGLRenderingContext else None)\<rparr>"

definition gpu_absent :: gpu_platform where
  "gpu_absent = gpu_browser\<lparr>navigator_gpu_defined := False\<rparr>"

section \<open>Properties\<close>

subsection \<open>The example renderers are reached by the operations\<close>

lemma wgpu_ready_reached:
  "wgpu_initialize gpu_browser (WGPURenderer example_canvas) = Inr wgpu_ready"
  by (simp add: wgpu_initialize_def wgpu_isSupported_def gpu_browser_def wgpu_ready_def
      WGPURenderer_def emit_def)

lemma wgpu_painting_reached:
  "\<exists>s1. wgpu_createPipeline ''p'' example_pipeline_config wgpu_ready = Inr s1
     \<and> wgpu_setPipeline ''p'' s1 = wgpu_painting"
  by (simp add: wgpu_createPipeline_def getShaderModule_def wgpu_ready_def WGPURenderer_def
      example_pipeline_config_def primitive_topology_def primitive_cullMode_def emit_def
      wgpu_setPipeline_def Map_has_def wgpu_painting_def example_pipeline_def)

lemma wgpu_painting_renders:
  "wgpu_render no_draw wgpu_painting
     = Inr (wgpu_painting\<lparr>events := events wgpu_painting @ [EvFrameRendered 1],
          frameCount := 1,
          queue := [SubmitRender \<lparr>pass_frame = 1, colorView = SwapChainView,
            resolveTarget = None,
            clearValue = \<lparr>col_r = 0.1, col_g = 0.1, col_b = 0.1, col_a = 1\<rparr>,
            storeOp = Store, depthStencilAttachment = None, pass_pipeline = 3,
            pass_vertexBuffers = [], pass_bindGroups = [], pass_draw = None\<rparr>]\<rparr>)"
  by (simp add: wgpu_render_def wgpu_beginFrame_def wgpu_painting_def wgpu_ready_def
      WGPURenderer_def truthy_str_def color_attachment_def own_msaa_resolve_def
      depth_attachment_def resolve_bindings_def draw_command_def no_draw_def truthy_num_def
      example_pipeline_def emit_def)

lemma wgpu_grouped_reached:
  "wgpu_createBindGroup example_bind_group_config wgpu_painting = Inr wgpu_grouped"
  by (simp add: wgpu_createBindGroup_def wgpu_painting_def wgpu_ready_def WGPURenderer_def
      truthy_str_def example_bind_group_config_def emit_def wgpu_grouped_def
      example_bind_group_def)


lemma wgpu_multisampled_reached: "wgpu_setMSAA True wgpu_ready = Inr (True, wgpu_multisampled)"
  by (simp add: wgpu_setMSAA_def wgpu_createMSAATexture_def wgpu_ready_def WGPURenderer_def
      emit_def example_canvas_def GPUTextureUsage_RENDER_ATTACHMENT_def wgpu_multisampled_def
      example_msaa_texture_def)

lemma wgl_ready_reached:
  "wgl_initialize gl_browser (WGLRenderer example_canvas default_options) = Inr wgl_ready"
  by (simp add: wgl_initialize_def wgl_isSupported_def gl_browser_def first_context_def
      initial_state_def and_then_def wgl_setClearColor_def wgl_setDepthTest_def
      wgl_setBlendState_def wgl_setCullFace_def gl_call_def emit_def wgl_ready_def
      WGLRenderer_def)

lemma wgl2_ready_reached:
  "wgl2_initialize gl_browser (WGL2Renderer example_canvas default_options) = Inr wgl2_ready"
  by (simp add: wgl2_initialize_def wgl2_isSupported_def gl_browser_def first_context_def
      initial_state_def and_then_def wgl_setClearColor_def wgl_setDepthTest_def
      wgl_setBlendState_def wgl_setCullFace_def gl_call_def emit_def wgl2_ready_def
      WGL2Renderer_def WGLRenderer_def wgl_renderer.extend_def)

lemma wgl2_vao_reached:
  "\<exists>s1. wgl2_createVAO gl_browser ''v'' wgl2_ready = Inr s1
     \<and> wgl2_bindVAO (Some ''v'') s1 = Inr wgl2_vao"
  by (simp add: wgl2_createVAO_def wgl2_bindVAO_def gl_browser_def wgl2_ready_def
      WGL2Renderer_def WGLRenderer_def wgl_renderer.extend_def truthy_str_def str_or_def
      Map_has_def vao_object_def gl_call_def wgl2_vao_def)

lemma wgl_buffered_reached:
  "wgl_createBuffer gl_browser example_gl_buffer_config wgl_ready = Inr wgl_buffered"
  by (simp add: wgl_createBuffer_def gl_browser_def example_gl_buffer_config_def wgl_ready_def
      WGLRenderer_def num_or_def emit_def gl_call_def wgl_buffered_def example_gl_buffer_def)

lemma wgl_destroyed_reached: "wgl_destroy wgl_buffered = Inr wgl_destroyed"
  by (simp add: wgl_destroy_def delete_all_def and_then_def gl_call_def emit_def
      wgl_buffered_def wgl_ready_def WGLRenderer_def wgl_destroyed_def example_gl_buffer_def)

subsection \<open>Rendering with no pipeline or program\<close>

text \<open>
  Claim C1 as stated fails twice. \<open>WGLRenderer.render\<close> has no program check: on an
  initialized renderer with no current program it returns normally, counts the frame
  and emits \<open>frameRendered\<close>. \<open>WGPURenderer.render\<close> calls \<open>beginFrame\<close> before its
  checks: the call that fails for want of a pipeline has already advanced the frame
  counter.
\<close>

theorem C1_counterexample:
  "isInitialized wgl_ready \<and> gl_currentProgram wgl_ready = None
   \<and> wgl_render wgl_ready
       = Inr (wgl_ready\<lparr>events := [EvInitialized, EvFrameRendered 1], gl_frameCount := 1\<rparr>)
   \<and> isInitialized wgpu_ready \<and> currentPipeline wgpu_ready = None
   \<and> frameCount wgpu_ready = 0
   \<and> wgpu_render no_draw wgpu_ready = Inl (NoPipelineSet, wgpu_ready\<lparr>frameCount := 1\<rparr>)"
  by (simp add: wgl_render_def wgl_ready_def WGLRenderer_def emit_def wgpu_render_def
      wgpu_beginFrame_def wgpu_ready_def WGPURenderer_def truthy_str_def)

text \<open>
  Claim C1, amended. On the encoder-based backend \<open>render\<close> on an initialized renderer
  with no pipeline set throws \<open>NoPipelineSet\<close> and emits no event; on a renderer that
  is not initialized it warns, returns normally and emits no event; a call on an
  initialized renderer that returns normally emits \<open>frameRendered\<close> exactly once, as the
  only new event, and advances the frame counter by one. On the immediate-mode
  backends \<open>render\<close> never throws, emits \<open>frameRendered\<close> exactly once and advances the
  frame counter by one; the program check is in \<open>draw\<close>. On an initialized renderer
  with no current program \<open>WGLRenderer.draw\<close> throws \<open>NoProgramSet\<close> and changes
  nothing, and \<open>WGL2Renderer.draw\<close>, which overrides it and binds the current vertex
  array first, throws \<open>NoProgramSet\<close> as well, on a renderer that has its context, and
  emits no event and no warning.
  Nothing is said of the frame counter on the two paths of the encoder-based \<open>render\<close>
  that draw nothing, nor of the vertex array binding \<open>WGL2Renderer.draw\<close> leaves
  behind when it throws.
\<close>

theorem C1_render_without_pipeline:
  "(isInitialized s1 \<and> \<not> truthy_str (currentPipeline s1)
      \<longrightarrow> (\<exists>s'. wgpu_render dc1 s1 = Inl (NoPipelineSet, s') \<and> events s' = events s1))
   \<and> (\<not> isInitialized s2
      \<longrightarrow> (\<exists>s'. wgpu_render dc2 s2 = Inr s' \<and> events s' = events s2
               \<and> console s' = console s2 @ [WarnNotInitialized]))
   \<and> (isInitialized s3 \<and> wgpu_render dc3 s3 = Inr s3'
      \<longrightarrow> events s3' = events s3 @ [EvFrameRendered (Suc (frameCount s3))]
          \<and> frameCount s3' = Suc (frameCount s3))
   \<and> (\<exists>g'. wgl_render g = Inr g'
          \<and> events g' = events g @ [EvFrameRendered (Suc (gl_frameCount g))]
          \<and> gl_frameCount g' = Suc (gl_frameCount g))
   \<and> (isInitialized g2 \<and> \<not> truthy_str (gl_currentProgram g2)
      \<longrightarrow> wgl_draw d g2 = Inl (NoProgramSet, g2))
   \<and> (isInitialized h \<and> gl_context h \<noteq> None \<and> \<not> truthy_str (gl_currentProgram h)
      \<longrightarrow> (\<exists>h'. wgl2_draw d2 h = Inl (NoProgramSet, h') \<and> events h' = events h
               \<and> console h' = console h))"
proof (intro conjI impI)
  assume "isInitialized s1 \<and> \<not> truthy_str (currentPipeline s1)"
  then show "\<exists>s'. wgpu_render dc1 s1 = Inl (NoPipelineSet, s') \<and> events s' = events s1"
    by (simp add: wgpu_render_def wgpu_beginFrame_def)
next
  assume "\<not> isInitialized s2"
  then show "\<exists>s'. wgpu_render dc2 s2 = Inr s' \<and> events s' = events s2
      \<and> console s' = console s2 @ [WarnNotInitialized]"
    by (simp add: wgpu_render_def wgpu_beginFrame_def console_write_def)
next
  assume h: "isInitialized s3 \<and> wgpu_render dc3 s3 = Inr s3'"
  then show "events s3' = events s3 @ [EvFrameRendered (Suc (frameCount s3))]"
    by (auto simp add: wgpu_render_def wgpu_beginFrame_def emit_def Let_def
        split: option.splits if_splits prod.splits)
  from h show "frameCount s3' = Suc (frameCount s3)"
    by (auto simp add: wgpu_render_def wgpu_beginFrame_def emit_def Let_def
        split: option.splits if_splits prod.splits)
next
  show "\<exists>g'. wgl_render g = Inr g'
          \<and> events g' = events g @ [EvFrameRendered (Suc (gl_frameCount g))]
          \<and> gl_frameCount g' = Suc (gl_frameCount g)"
    by (simp add: wgl_render_def emit_def)
next
  assume "isInitialized g2 \<and> \<not> truthy_str (gl_currentProgram g2)"
  then show "wgl_draw d g2 = Inl (NoProgramSet, g2)"
    by (simp add: wgl_draw_def)
next
  assume "isInitialized h \<and> gl_context h \<noteq> None \<and> \<not> truthy_str (gl_currentProgram h)"
  then show "\<exists>h'. wgl2_draw d2 h = Inl (NoProgramSet, h') \<and> events h' = events h
      \<and> console h' = console h"
    by (auto simp add: wgl2_draw_def wgl_draw_def gl_call_def)
qed

theorem C1_render_without_pipeline_witness:
  "isInitialized wgpu_ready \<and> \<not> truthy_str (currentPipeline wgpu_ready)
   \<and> (\<exists>s'. wgpu_render no_draw wgpu_ready = Inl (NoPipelineSet, s')
          \<and> events s' = events wgpu_ready)
   \<and> \<not> isInitialized (WGPURenderer example_canvas)
   \<and> (\<exists>s'. wgpu_render no_draw (WGPURenderer example_canvas) = Inr s'
          \<and> events s' = events (WGPURenderer example_canvas))
   \<and> isInitialized wgpu_painting
   \<and> (\<exists>s'. wgpu_render no_draw wgpu_painting = Inr s'
          \<and> events s' = events wgpu_painting @ [EvFrameRendered 1] \<and> frameCount s' = 1)
   \<and> isInitialized wgl_ready \<and> \<not> truthy_str (gl_currentProgram wgl_ready)
   \<and> wgl_draw no_gl_draw wgl_ready = Inl (NoProgramSet, wgl_ready)
   \<and> isInitialized wgl2_vao \<and> gl_context wgl2_vao \<noteq> None
   \<and> \<not> truthy_str (gl_currentProgram wgl2_vao) \<and> truthy_str (currentVAO wgl2_vao)
   \<and> (\<exists>h'. wgl2_draw no_gl_draw wgl2_vao = Inl (NoProgramSet, h')
          \<and> events h' = events wgl2_vao)"
proof -
  obtain s3' where r3: "wgpu_render no_draw wgpu_painting = Inr s3'"
    using wgpu_painting_renders by blast
  note T = C1_render_without_pipeline [of wgpu_ready no_draw "WGPURenderer example_canvas"
      no_draw wgpu_painting no_draw s3' wgl_ready wgl_ready no_gl_draw wgl2_vao no_gl_draw]
  have h1: "isInitialized wgpu_ready \<and> \<not> truthy_str (currentPipeline wgpu_ready)"
    by (simp add: wgpu_ready_def WGPURenderer_def truthy_str_def)
  have h2: "\<not> isInitialized (WGPURenderer example_canvas)"
    by (simp add: WGPURenderer_def)
  have h3: "isInitialized wgpu_painting"
    by (simp add: wgpu_painting_def wgpu_ready_def)
  have f3: "frameCount wgpu_painting = 0"
    by (simp add: wgpu_painting_def wgpu_ready_def WGPURenderer_def)
  have h5: "isInitialized wgl_ready \<and> \<not> truthy_str (gl_currentProgram wgl_ready)"
    by (simp add: wgl_ready_def WGLRenderer_def truthy_str_def)
  have h6: "isInitialized wgl2_vao \<and> gl_context wgl2_vao \<noteq> None
      \<and> \<not> truthy_str (gl_currentProgram wgl2_vao) \<and> truthy_str (currentVAO wgl2_vao)"
    by (simp add: wgl2_vao_def wgl2_ready_def WGL2Renderer_def WGLRenderer_def
        wgl_renderer.extend_def truthy_str_def)
  from T h3 r3 f3 have c3: "events s3' = events wgpu_painting @ [EvFrameRendered 1]
      \<and> frameCount s3' = 1"
    by simp
  from T h6 have c6: "\<exists>h'. wgl2_draw no_gl_draw wgl2_vao = Inl (NoProgramSet, h')
          \<and> events h' = events wgl2_vao"
    by blast
  from T h1 h2 h3 h5 h6 r3 c3 c6 show ?thesis by blast
qed

subsection \<open>Initialization\<close>

text \<open>
  Claim C2 as stated fails on the encoder-based backend. \<open>WGPURenderer.initialize\<close>
  acquires the adapter, the device and the context and sets \<open>isInitialized\<close>; it calls
  none of the four render-state setters. After it the blend and depth-stencil states are
  still \<open>null\<close>, which no call of \<open>setBlendState\<close> leaves behind, and nothing has
  reached the queue.
\<close>

theorem C2_counterexample:
  "wgpu_initialize gpu_browser (WGPURenderer example_canvas) = Inr wgpu_ready
   \<and> isInitialized wgpu_ready
   \<and> blendState wgpu_ready = None \<and> depthStencilState wgpu_ready = None
   \<and> blendState (wgpu_setBlendState (blendEnabled wgpu_ready) default_blend_config wgpu_ready)
       \<noteq> None
   \<and> queue wgpu_ready = []"
  by (simp add: wgpu_initialize_def wgpu_isSupported_def gpu_browser_def wgpu_ready_def
      WGPURenderer_def emit_def wgpu_setBlendState_def)

text \<open>
  The four setters in the order of the source: clear colour, depth test, blend, cull
  face. With a context none of them throws, and the calls they make are appended to
  the context's calls in that order.
\<close>

lemma initial_state_calls:
  "gl_context g \<noteq> None \<Longrightarrow>
   \<exists>g'. initial_state g = Inr g' \<and> isInitialized g' = isInitialized g
     \<and> events g' = events g \<and> console g' = console g
     \<and> gl_calls g' = gl_calls g
         @ [ClearColor (col_r (gl_clearColor g)) (col_g (gl_clearColor g))
              (col_b (gl_clearColor g)) (col_a (gl_clearColor g))]
         @ (if gl_depthTestEnabled g then [Enable DEPTH_TEST, DepthFunc LESS]
            else [Disable DEPTH_TEST])
         @ (if gl_blendEnabled g
            then [Enable BLEND,
                  BlendFunc (num_or (Some (src (gl_blendFunc g))) SRC_ALPHA)
                    (num_or (Some (dst (gl_blendFunc g))) ONE_MINUS_SRC_ALPHA)]
            else [Disable BLEND])
         @ (if gl_cullFaceEnabled g then [Enable CULL_FACE, CullFace (gl_cullFaceMode g)]
            else [Disable CULL_FACE])"
  by (auto simp add: initial_state_def and_then_def wgl_setClearColor_def wgl_setDepthTest_def
      wgl_setBlendState_def wgl_setCullFace_def gl_call_def Let_def)

text \<open>
  Claim C2, amended. \<open>initialize\<close> of the immediate-mode backends either resolves
  with \<open>isInitialized\<close> set, having issued to the context the clear colour, the depth
  test, the blend and the cull face state, in that order and nothing else, or rejects
  with \<open>isInitialized\<close> as it was (false, on a renderer that was not initialized) and
  no call made. On the encoder-based backend it either resolves with \<open>isInitialized\<close>
  set or rejects with it as it was, and in both cases applies none of the four states:
  they keep the values they had, which on a new renderer are the constructor's.
\<close>

theorem C2_initialize_all_or_nothing:
  "(case wgl_initialize p g of
         Inr g' \<Rightarrow>
           isInitialized g'
           \<and> gl_calls g' = gl_calls g
               @ [ClearColor (col_r (gl_clearColor g)) (col_g (gl_clearColor g))
                    (col_b (gl_clearColor g)) (col_a (gl_clearColor g))]
               @ (if gl_depthTestEnabled g then [Enable DEPTH_TEST, DepthFunc LESS]
                  else [Disable DEPTH_TEST])
               @ (if gl_blendEnabled g
                  then [Enable BLEND,
                        BlendFunc (num_or (Some (src (gl_blendFunc g))) SRC_ALPHA)
                          (num_or (Some (dst (gl_blendFunc g))) ONE_MINUS_SRC_ALPHA)]
                  else [Disable BLEND])
               @ (if gl_cullFaceEnabled g
                  then [Enable CULL_FACE, CullFace (gl_cullFaceMode g)]
                  else [Disable CULL_FACE])
       | Inl (e, g') \<Rightarrow> isInitialized g' = isInitialized g \<and> gl_calls g' = gl_calls g)
   \<and> (case wgl2_initialize p2 h of
         Inr h' \<Rightarrow>
           isInitialized h'
           \<and> gl_calls h' = gl_calls h
               @ [ClearColor (col_r (gl_clearColor h)) (col_g (gl_clearColor h))
                    (col_b (gl_clearColor h)) (col_a (gl_clearColor h))]
               @ (if gl_depthTestEnabled h then [Enable DEPTH_TEST, DepthFunc LESS]
                  else [Disable DEPTH_TEST])
               @ (if gl_blendEnabled h
                  then [Enable BLEND,
                        BlendFunc (num_or (Some (src (gl_blendFunc h))) SRC_ALPHA)
                          (num_or (Some (dst (gl_blendFunc h))) ONE_MINUS_SRC_ALPHA)]
                  else [Disable BLEND])
               @ (if gl_cullFaceEnabled h
                  then [Enable CULL_FACE, CullFace (gl_cullFaceMode h)]
                  else [Disable CULL_FACE])
       | Inl (e, h') \<Rightarrow> isInitialized h' = isInitialized h \<and> gl_calls h' = gl_calls h)
   \<and> (case wgpu_initialize q s of
         Inr s' \<Rightarrow>
           isInitialized s' \<and> clearColor s' = clearColor s
           \<and> depthEnabled s' = depthEnabled s \<and> depthStencilState s' = depthStencilState s
           \<and> blendEnabled s' = blendEnabled s \<and> blendState s' = blendState s
           \<and> cullMode s' = cullMode s \<and> queue s' = queue s
       | Inl (e, s') \<Rightarrow>
           isInitialized s' = isInitialized s \<and> clearColor s' = clearColor s
           \<and> depthEnabled s' = depthEnabled s \<and> depthStencilState s' = depthStencilState s
           \<and> blendEnabled s' = blendEnabled s \<and> blendState s' = blendState s
           \<and> cullMode s' = cullMode s \<and> queue s' = queue s)"
proof (intro conjI)
  show "case wgl_initialize p g of
         Inr g' \<Rightarrow>
           isInitialized g'
           \<and> gl_calls g' = gl_calls g
               @ [ClearColor (col_r (gl_clearColor g)) (col_g (gl_clearColor g))
                    (col_b (gl_clearColor g)) (col_a (gl_clearColor g))]
               @ (if gl_depthTestEnabled g then [Enable DEPTH_TEST, DepthFunc LESS]
                  else [Disable DEPTH_TEST])
               @ (if gl_blendEnabled g
                  then [Enable BLEND,
                        BlendFunc (num_or (Some (src (gl_blendFunc g))) SRC_ALPHA)
                          (num_or (Some (dst (gl_blendFunc g))) ONE_MINUS_SRC_ALPHA)]
                  else [Disable BLEND])
               @ (if gl_cullFaceEnabled g
                  then [Enable CULL_FACE, CullFace (gl_cullFaceMode g)]
                  else [Disable CULL_FACE])
       | Inl (e, g') \<Rightarrow> isInitialized g' = isInitialized g \<and> gl_calls g' = gl_calls g"
  proof (cases "wgl_isSupported p")
    case False
    then show ?thesis by (simp add: wgl_initialize_def)
  next
    case True
    let ?g1 = "g\<lparr>gl_context := first_context (canvas_getContext p ''webgl'')
                     (canvas_getContext p ''experimental-webgl'')\<rparr>"
    show ?thesis
    proof (cases "gl_context ?g1 = None")
      case True
      with \<open>wgl_isSupported p\<close> show ?thesis
        by (simp add: wgl_initialize_def wgl_initialize_catch_def emit_def console_write_def)
    next
      case False
      then obtain c where c: "first_context (canvas_getContext p ''webgl'')
          (canvas_getContext p ''experimental-webgl'') = Some c"
        by auto
      from initial_state_calls [OF False] obtain g' where
        i: "initial_state ?g1 = Inr g'"
        and j: "gl_calls g' = gl_calls ?g1
         @ [ClearColor (col_r (gl_clearColor ?g1)) (col_g (gl_clearColor ?g1))
              (col_b (gl_clearColor ?g1)) (col_a (gl_clearColor ?g1))]
         @ (if gl_depthTestEnabled ?g1 then [Enable DEPTH_TEST, DepthFunc LESS]
            else [Disable DEPTH_TEST])
         @ (if gl_blendEnabled ?g1
            then [Enable BLEND,
                  BlendFunc (num_or (Some (src (gl_blendFunc ?g1))) SRC_ALPHA)
                    (num_or (Some (dst (gl_blendFunc ?g1))) ONE_MINUS_SRC_ALPHA)]
            else [Disable BLEND])
         @ (if gl_cullFaceEnabled ?g1 then [Enable CULL_FACE, CullFace (gl_cullFaceMode ?g1)]
            else [Disable CULL_FACE])"
        by blast
      from \<open>wgl_isSupported p\<close> c i
      have "wgl_initialize p g = Inr (emit EvInitialized (g'\<lparr>isInitialized := True\<rparr>))"
        by (simp add: wgl_initialize_def)
      with j show ?thesis by (simp add: emit_def)
    qed
  qed
next
  show "case wgl2_initialize p2 h of
         Inr h' \<Rightarrow>
           isInitialized h'
           \<and> gl_calls h' = gl_calls h
               @ [ClearColor (col_r (gl_clearColor h)) (col_g (gl_clearColor h))
                    (col_b (gl_clearColor h)) (col_a (gl_clearColor h))]
               @ (if gl_depthTestEnabled h then [Enable DEPTH_TEST, DepthFunc LESS]
                  else [Disable DEPTH_TEST])
               @ (if gl_blendEnabled h
                  then [Enable BLEND,
                        BlendFunc (num_or (Some (src (gl_blendFunc h))) SRC_ALPHA)
                          (num_or (Some (dst (gl_blendFunc h))) ONE_MINUS_SRC_ALPHA)]
                  else [Disable BLEND])
               @ (if gl_cullFaceEnabled h
                  then [Enable CULL_FACE, CullFace (gl_cullFaceMode h)]
                  else [Disable CULL_FACE])
       | Inl (e, h') \<Rightarrow> isInitialized h' = isInitialized h \<and> gl_calls h' = gl_calls h"
  proof (cases "wgl2_isSupported p2")
    case False
    then show ?thesis by (simp add: wgl2_initialize_def)
  next
    case True
    let ?h1 = "h\<lparr>gl_context := canvas_getContext p2 ''webgl2''\<rparr>"
    show ?thesis
    proof (cases "gl_context ?h1 = None")
      case True
      with \<open>wgl2_isSupported p2\<close> show ?thesis
        by (simp add: wgl2_initialize_def wgl_initialize_catch_def emit_def console_write_def)
    next
      case False
      then obtain c where c: "canvas_getContext p2 ''webgl2'' = Some c"
        by auto
      let ?h2 = "h\<lparr>gl_context := Some c, GL := Some c\<rparr>"
      have "gl_context ?h2 \<noteq> None" by simp
      from initial_state_calls [OF this] obtain h' where
        i: "initial_state ?h2 = Inr h'"
        and j: "gl_calls h' = gl_calls ?h2
         @ [ClearColor (col_r (gl_clearColor ?h2)) (col_g (gl_clearColor ?h2))
              (col_b (gl_clearColor ?h2)) (col_a (gl_clearColor ?h2))]
         @ (if gl_depthTestEnabled ?h2 then [Enable DEPTH_TEST, DepthFunc LESS]
            else [Disable DEPTH_TEST])
         @ (if gl_blendEnabled ?h2
            then [Enable BLEND,
                  BlendFunc (num_or (Some (src (gl_blendFunc ?h2))) SRC_ALPHA)
                    (num_or (Some (dst (gl_blendFunc ?h2))) ONE_MINUS_SRC_ALPHA)]
            else [Disable BLEND])
         @ (if gl_cullFaceEnabled ?h2 then [Enable CULL_FACE, CullFace (gl_cullFaceMode ?h2)]
            else [Disable CULL_FACE])"
        by blast
      from \<open>wgl2_isSupported p2\<close> c i
      have "wgl2_initialize p2 h = Inr (emit EvInitialized (h'\<lparr>isInitialized := True\<rparr>))"
        by (simp add: wgl2_initialize_def)
      with j show ?thesis by (simp add: emit_def)
    qed
  qed
next
  show "case wgpu_initialize q s of
         Inr s' \<Rightarrow>
           isInitialized s' \<and> clearColor s' = clearColor s
           \<and> depthEnabled s' = depthEnabled s \<and> depthStencilState s' = depthStencilState s
           \<and> blendEnabled s' = blendEnabled s \<and> blendState s' = blendState s
           \<and> cullMode s' = cullMode s \<and> queue s' = queue s
       | Inl (e, s') \<Rightarrow>
           isInitialized s' = isInitialized s \<and> clearColor s' = clearColor s
           \<and> depthEnabled s' = depthEnabled s \<and> depthStencilState s' = depthStencilState s
           \<and> blendEnabled s' = blendEnabled s \<and> blendState s' = blendState s
           \<and> cullMode s' = cullMode s \<and> queue s' = queue s"
    by (simp add: wgpu_initialize_def wgpu_initialize_catch_def emit_def console_write_def
        Let_def)
qed

theorem C2_initialize_all_or_nothing_witness:
  "\<not> isInitialized (WGLRenderer example_canvas default_options)
   \<and> wgl_initialize gl_browser (WGLRenderer example_canvas default_options) = Inr wgl_ready
   \<and> isInitialized wgl_ready
   \<and> gl_calls wgl_ready
       = [ClearColor 0.1 0.1 0.1 1, Disable DEPTH_TEST, Disable BLEND, Disable CULL_FACE]
   \<and> \<not> isInitialized (WGL2Renderer example_canvas default_options)
   \<and> wgl2_initialize gl_browser (WGL2Renderer example_canvas default_options)
       = Inr wgl2_ready
   \<and> isInitialized wgl2_ready
   \<and> gl_calls wgl2_ready
       = [ClearColor 0.1 0.1 0.1 1, Disable DEPTH_TEST, Disable BLEND, Disable CULL_FACE]
   \<and> \<not> isInitialized (WGPURenderer example_canvas)
   \<and> wgpu_initialize gpu_browser (WGPURenderer example_canvas) = Inr wgpu_ready
   \<and> isInitialized wgpu_ready \<and> blendState wgpu_ready = None"
proof -
  note T = C2_initialize_all_or_nothing [of "WGLRenderer example_canvas default_options"
      gl_browser "WGL2Renderer example_canvas default_options" gl_browser
      "WGPURenderer example_canvas" gpu_browser]
  have h1: "\<not> isInitialized (WGLRenderer example_canvas default_options)"
    by (simp add: WGLRenderer_def)
  have h2: "\<not> isInitialized (WGL2Renderer example_canvas default_options)"
    by (simp add: WGL2Renderer_def WGLRenderer_def wgl_renderer.extend_def)
  have h3: "\<not> isInitialized (WGPURenderer example_canvas)"
    by (simp add: WGPURenderer_def)
  have f1: "gl_calls (WGLRenderer example_canvas default_options) = []
      \<and> gl_clearColor (WGLRenderer example_canvas default_options)
          = \<lparr>col_r = 0.1, col_g = 0.1, col_b = 0.1, col_a = 1\<rparr>
      \<and> \<not> gl_depthTestEnabled (WGLRenderer example_canvas default_options)
      \<and> \<not> gl_blendEnabled (WGLRenderer example_canvas default_options)
      \<and> \<not> gl_cullFaceEnabled (WGLRenderer example_canvas default_options)"
    by (simp add: WGLRenderer_def)
  have f2: "gl_calls (WGL2Renderer example_canvas default_options) = []
      \<and> gl_clearColor (WGL2Renderer example_canvas default_options)
          = \<lparr>col_r = 0.1, col_g = 0.1, col_b = 0.1, col_a = 1\<rparr>
      \<and> \<not> gl_depthTestEnabled (WGL2Renderer example_canvas default_options)
      \<and> \<not> gl_blendEnabled (WGL2Renderer example_canvas default_options)
      \<and> \<not> gl_cullFaceEnabled (WGL2Renderer example_canvas default_options)"
    by (simp add: WGL2Renderer_def WGLRenderer_def wgl_renderer.extend_def)
  have f3: "blendState (WGPURenderer example_canvas) = None"
    by (simp add: WGPURenderer_def)
  from T h1 f1 wgl_ready_reached have c1: "isInitialized wgl_ready
      \<and> gl_calls wgl_ready
          = [ClearColor 0.1 0.1 0.1 1, Disable DEPTH_TEST, Disable BLEND, Disable CULL_FACE]"
    by simp
  from T h2 f2 wgl2_ready_reached have c2: "isInitialized wgl2_ready
      \<and> gl_calls wgl2_ready
          = [ClearColor 0.1 0.1 0.1 1, Disable DEPTH_TEST, Disable BLEND, Disable CULL_FACE]"
    by simp
  from T h3 f3 wgpu_ready_reached have c3: "isInitialized wgpu_ready
      \<and> blendState wgpu_ready = None"
    by simp
  from h1 h2 h3 c1 c2 c3 wgl_ready_reached wgl2_ready_reached wgpu_ready_reached
  show ?thesis by blast
qed

subsection \<open>Updating a texture\<close>

lemma set_update_subset: "set (AList.update k v al) \<subseteq> insert (k, v) (set al)"
  by (induction al) auto

lemma set_delete_subset: "set (AList.delete k al) \<subseteq> set al"
  by (induction al) auto



lemma textures_wf_createTexture:
  "textures_wf s \<Longrightarrow> wgpu_createTexture config s = Inr s' \<Longrightarrow> textures_wf s'"
proof -
  assume wf: "textures_wf s" and c: "wgpu_createTexture config s = Inr s'"
  let ?m = "\<lparr>texture = nextHandle s, view = Suc (nextHandle s), width = tc_width config,
      height = tc_height config, tex_format = str_or (tc_format config) ''rgba8unorm'',
      tex_usage = num_or (tc_usage config)
        (GPUTextureUsage_TEXTURE_BINDING + GPUTextureUsage_COPY_DST),
      sampleCount = None\<rparr>"
  from c have t: "textures s' = AList.update (tc_name config) ?m (textures s)"
    and n: "nextHandle s' = Suc (Suc (nextHandle s))"
    by (auto simp add: wgpu_createTexture_def emit_def Let_def split: if_splits option.splits)
  have f: "tex_format ?m \<noteq> [] \<and> tex_usage ?m \<noteq> 0"
    by (simp add: str_or_def num_or_def GPUTextureUsage_TEXTURE_BINDING_def
        GPUTextureUsage_COPY_DST_def split: option.splits)
  show "textures_wf s'"
    unfolding textures_wf_def
  proof (clarify)
    fix name m assume "(name, m) \<in> set (textures s')"
    with t set_update_subset [of "tc_name config" ?m "textures s"]
    have "(name, m) = (tc_name config, ?m) \<or> (name, m) \<in> set (textures s)"
      by auto
    then show "texture m < nextHandle s' \<and> view m < nextHandle s'
        \<and> tex_format m \<noteq> [] \<and> tex_usage m \<noteq> 0"
    proof
      assume "(name, m) = (tc_name config, ?m)"
      with f n show ?thesis by auto
    next
      assume "(name, m) \<in> set (textures s)"
      with wf n show ?thesis by (fastforce simp add: textures_wf_def)
    qed
  qed
qed

lemma textures_wf_destroyTexture:
  "textures_wf s \<Longrightarrow> textures_wf (wgpu_destroyTexture name s)"
  using set_delete_subset [of name "textures s"]
  by (auto simp add: textures_wf_def wgpu_destroyTexture_def emit_def split: option.splits)

lemma textures_wf_destroy: "textures_wf (wgpu_destroy s)"
  by (simp add: textures_wf_def wgpu_destroy_def emit_def Let_def)

lemma textures_wf_writeTexture:
  "textures_wf s \<Longrightarrow> wgpu_writeTexture name w h m s = Inr s' \<Longrightarrow> textures_wf s'"
  by (auto simp add: wgpu_writeTexture_def emit_def textures_wf_def Let_def
      split: option.splits)

lemma textures_wf_updateTexture:
  assumes wf: "textures_wf s" and u: "wgpu_updateTexture name w h s = Inr s'"
  shows "textures_wf s'"
proof (cases "map_of (textures s) name")
  case None
  with u show ?thesis by (simp add: wgpu_updateTexture_def)
next
  case (Some m)
  show ?thesis
  proof (cases "needsResize w h m")
    case None
    with Some u have "wgpu_writeTexture name w h m s = Inr s'"
      by (simp add: wgpu_updateTexture_def)
    with wf show ?thesis by (rule textures_wf_writeTexture)
  next
    case (Some dims)
    obtain wv hv where dims: "dims = (wv, hv)" by (cases dims)
    let ?config = "\<lparr>tc_name = name, tc_width = wv, tc_height = hv,
        tc_format = Some (tex_format m), tc_usage = Some (tex_usage m)\<rparr>"
    from u \<open>map_of (textures s) name = Some m\<close> Some dims
    obtain s1 m1 where c: "wgpu_createTexture ?config (wgpu_destroyTexture name s) = Inr s1"
      and x: "wgpu_writeTexture name w h m1 s1 = Inr s'"
      by (auto simp add: wgpu_updateTexture_def split: sum.splits option.splits)
    from wf have "textures_wf (wgpu_destroyTexture name s)"
      by (rule textures_wf_destroyTexture)
    then have "textures_wf s1" using c by (rule textures_wf_createTexture)
    then show ?thesis using x by (rule textures_wf_writeTexture)
  qed
qed





subsection \<open>Writing past the end of a buffer\<close>

text \<open>
  \<open>WGPURenderer.updateBuffer\<close> checks the extent of the write against the stored size
  and warns on the console when it is larger, whatever happens next.
\<close>

lemma wgpu_updateBuffer_overflow_warns:
  assumes "isInitialized s" and "map_of (buffers s) name = Some m"
    and "offset + dataToWrite_byteLength data > buf_size m"
  shows "case wgpu_updateBuffer name data offset s of
           Inr s' \<Rightarrow> console s' = console s @ [WarnBufferTooSmall name]
         | Inl (e, s') \<Rightarrow> console s' = console s @ [WarnBufferTooSmall name]"
  using assms
  by (simp add: wgpu_updateBuffer_def console_write_def emit_def Let_def split: option.splits)

text \<open>
  \<open>WGLRenderer.updateBuffer\<close> has no such check: on a registered buffer of a renderer
  with a context it returns normally and writes nothing to the console, whatever the
  offset and the length.
\<close>

lemma wgl_updateBuffer_never_reports:
  assumes "map_of (gl_buffers g) name = Some m" and "gl_context g \<noteq> None"
  shows "\<exists>g'. wgl_updateBuffer name data offset g = Inr g' \<and> console g' = console g"
  using assms
  by (auto simp add: wgl_updateBuffer_def emit_def gl_call_def)

text \<open>
  Claim C4: an \<open>updateBuffer\<close> sub-range write that ends past the allocated capacity is
  surfaced by a warning or a rejection. It holds on the encoder-based backend and
  fails on the immediate-mode ones. On a buffer of 8 bytes, a write of 8 bytes at
  offset 4 is handed to \<open>bufferSubData\<close> as it is; the method returns normally, writes
  nothing to the console and emits \<open>bufferUpdated\<close>.
\<close>

theorem C4_wgl_updateBuffer_overflow_unreported:
  "map_of (gl_buffers wgl_buffered) ''b'' = Some example_gl_buffer
   \<and> gl_size example_gl_buffer = 8
   \<and> console wgl_buffered = []
   \<and> wgl_updateBuffer ''b'' (ArrayBuffer 8) 4 wgl_buffered
       = Inr (wgl_buffered\<lparr>
           events := [EvInitialized, EvBufferCreated ''b'' 8, EvBufferUpdated ''b'' 4 8],
           gl_calls := gl_calls wgl_buffered
             @ [BindBuffer ARRAY_BUFFER (Some 0), BufferSubData ARRAY_BUFFER 4 8,
                BindBuffer ARRAY_BUFFER None]\<rparr>)"
  by (simp add: wgl_updateBuffer_def wgl_buffered_def wgl_ready_def WGLRenderer_def
      example_gl_buffer_def emit_def gl_call_def)

subsection \<open>Creating on a renderer that is not initialized\<close>

text \<open>
  Every \<open>create*\<close> method that checks \<open>isInitialized\<close> throws \<open>NotInitialized\<close> on a
  renderer that is not initialized, and changes nothing.
\<close>

lemma wgpu_create_requires_initialized:
  assumes "\<not> isInitialized s"
  shows "wgpu_createBuffer bc s = Inl (NotInitialized, s)"
    and "wgpu_createTexture tc s = Inl (NotInitialized, s)"
    and "wgpu_createPipeline name pc s = Inl (NotInitialized, s)"
    and "wgpu_createComputePipeline name code s = Inl (NotInitialized, s)"
    and "wgpu_createRenderTarget rc s = Inl (NotInitialized, s)"
    and "wgpu_createSampler sc s = Inl (NotInitialized, s)"
    and "wgpu_createBindGroup gc s = Inl (NotInitialized, s)"
  using assms
  by (simp_all add: wgpu_createBuffer_def wgpu_createTexture_def wgpu_createPipeline_def
      wgpu_createComputePipeline_def wgpu_createRenderTarget_def wgpu_createSampler_def
      wgpu_createBindGroup_def)

lemma wgl_create_requires_initialized:
  assumes "\<not> isInitialized g"
  shows "wgl_createProgram p name sh g = Inl (NotInitialized, g)"
    and "wgl_createBuffer p gbc g = Inl (NotInitialized, g)"
    and "wgl_createTexture p gtc g = Inl (NotInitialized, g)"
  using assms
  by (simp_all add: wgl_createProgram_def wgl_createBuffer_def wgl_createTexture_def)

lemma wgl2_createVAO_requires_initialized:
  "\<not> isInitialized h \<Longrightarrow> wgl2_createVAO p name h = Inl (NotInitialized, h)"
  by (simp add: wgl2_createVAO_def)

text \<open>
  Claim C6: every \<open>create*\<close> method throws \<open>NotInitialized\<close> on a renderer that is not
  initialized. It fails on \<open>WGLRenderer.createFramebuffer\<close>, the one method without the
  check. On a renderer that was never initialized, and on one that was destroyed,
  the context is \<open>null\<close> and the first call on it throws a \<open>TypeError\<close>; the registries
  are unchanged, the error is not the one the claim names.
\<close>

theorem C6_createFramebuffer_unguarded:
  "\<not> isInitialized (WGLRenderer example_canvas default_options)
   \<and> wgl_createFramebuffer gl_browser ''fb'' [] (WGLRenderer example_canvas default_options)
       = Inl (TypeError, WGLRenderer example_canvas default_options)
   \<and> \<not> isInitialized wgl_destroyed
   \<and> wgl_createFramebuffer gl_browser ''fb'' [] wgl_destroyed = Inl (TypeError, wgl_destroyed)"
  by (simp add: wgl_createFramebuffer_def WGLRenderer_def wgl_destroyed_def wgl_buffered_def
      wgl_ready_def)

subsection \<open>After \<open>destroy\<close>\<close>

text \<open>
  Claim C5 as stated fails on the update methods that look the name up before anything
  else. After \<open>destroy\<close> the registries are empty, so \<open>WGPURenderer.updateTexture\<close> and
  \<open>WGLRenderer.updateBuffer\<close> throw \<open>NotFound\<close>, not \<open>NotInitialized\<close>.
\<close>

theorem C5_counterexample:
  "isInitialized wgpu_textured
   \<and> \<not> isInitialized (wgpu_destroy wgpu_textured)
   \<and> wgpu_updateTexture ''t'' None None (wgpu_destroy wgpu_textured)
       = Inl (NotFound TextureRes ''t'', wgpu_destroy wgpu_textured)
   \<and> isInitialized wgl_buffered
   \<and> wgl_destroy wgl_buffered = Inr wgl_destroyed
   \<and> \<not> isInitialized wgl_destroyed
   \<and> wgl_updateBuffer ''b'' (ArrayBuffer 8) 0 wgl_destroyed
       = Inl (NotFound BufferRes ''b'', wgl_destroyed)"
  by (simp add: wgl_destroyed_reached)
     (simp add: wgpu_updateTexture_def wgpu_destroy_def emit_def wgpu_textured_def
      wgpu_ready_def WGPURenderer_def wgl_updateBuffer_def wgl_destroyed_def wgl_buffered_def
      wgl_ready_def WGLRenderer_def Let_def)

lemma wgl_destroy_clears:
  assumes "gl_context g \<noteq> None"
  shows "\<exists>g'. wgl_destroy g = Inr g' \<and> gl_programs g' = [] \<and> gl_buffers g' = []
      \<and> gl_textures g' = [] \<and> gl_framebuffers g' = [] \<and> \<not> isInitialized g'
      \<and> gl_context g' = None"
  using assms
  by (simp add: wgl_destroy_def delete_all_def and_then_def gl_call_def emit_def)

text \<open>
  Claim C5, amended. After \<open>destroy\<close> on an initialized renderer every registry the
  claim lists is empty and \<open>isInitialized\<close> is false. Every later \<open>create*\<close> call that
  checks \<open>isInitialized\<close>, and \<open>updateBuffer\<close> of the encoder-based backend, throws
  \<open>NotInitialized\<close>; \<open>updateTexture\<close> of the encoder-based backend and \<open>updateBuffer\<close> of
  the immediate-mode backends throw \<open>NotFound\<close>, the registry being empty. Each of these
  calls leaves the renderer as \<open>destroy\<close> left it. (\<open>createFramebuffer\<close> of the
  immediate-mode backends is left out: see C6.)
\<close>

theorem C5_destroy_clears_and_gates:
  "(isInitialized s \<longrightarrow>
      buffers (wgpu_destroy s) = [] \<and> textures (wgpu_destroy s) = []
      \<and> pipelines (wgpu_destroy s) = [] \<and> computePipelines (wgpu_destroy s) = []
      \<and> renderTargets (wgpu_destroy s) = [] \<and> bindGroups (wgpu_destroy s) = []
      \<and> samplers (wgpu_destroy s) = [] \<and> \<not> isInitialized (wgpu_destroy s)
      \<and> wgpu_createBuffer bc (wgpu_destroy s) = Inl (NotInitialized, wgpu_destroy s)
      \<and> wgpu_createTexture tc (wgpu_destroy s) = Inl (NotInitialized, wgpu_destroy s)
      \<and> wgpu_createPipeline name pc (wgpu_destroy s) = Inl (NotInitialized, wgpu_destroy s)
      \<and> wgpu_createComputePipeline name code (wgpu_destroy s)
          = Inl (NotInitialized, wgpu_destroy s)
      \<and> wgpu_createRenderTarget rc (wgpu_destroy s) = Inl (NotInitialized, wgpu_destroy s)
      \<and> wgpu_createSampler sc (wgpu_destroy s) = Inl (NotInitialized, wgpu_destroy s)
      \<and> wgpu_createBindGroup gc (wgpu_destroy s) = Inl (NotInitialized, wgpu_destroy s)
      \<and> wgpu_updateBuffer name data offset (wgpu_destroy s)
          = Inl (NotInitialized, wgpu_destroy s)
      \<and> wgpu_updateTexture name w h (wgpu_destroy s)
          = Inl (NotFound TextureRes name, wgpu_destroy s))
   \<and> (isInitialized g \<and> gl_context g \<noteq> None \<longrightarrow>
      (\<exists>g'. wgl_destroy g = Inr g'
         \<and> gl_programs g' = [] \<and> gl_buffers g' = [] \<and> gl_textures g' = []
         \<and> gl_framebuffers g' = [] \<and> \<not> isInitialized g'
         \<and> wgl_createProgram p name sh g' = Inl (NotInitialized, g')
         \<and> wgl_createBuffer p gbc g' = Inl (NotInitialized, g')
         \<and> wgl_createTexture p gtc g' = Inl (NotInitialized, g')
         \<and> wgl_updateBuffer name data offset g' = Inl (NotFound BufferRes name, g')))"
proof -
  have d: "\<not> isInitialized (wgpu_destroy s)"
    by (simp add: wgpu_destroy_def emit_def Let_def)
  have e: "buffers (wgpu_destroy s) = []" "textures (wgpu_destroy s) = []"
    "pipelines (wgpu_destroy s) = []" "computePipelines (wgpu_destroy s) = []"
    "renderTargets (wgpu_destroy s) = []" "bindGroups (wgpu_destroy s) = []"
    "samplers (wgpu_destroy s) = []"
    by (simp_all add: wgpu_destroy_def emit_def Let_def)
  have u: "wgpu_updateBuffer name data offset (wgpu_destroy s)
      = Inl (NotInitialized, wgpu_destroy s)"
    using d by (simp add: wgpu_updateBuffer_def)
  have t: "wgpu_updateTexture name w h (wgpu_destroy s)
      = Inl (NotFound TextureRes name, wgpu_destroy s)"
    using e by (simp add: wgpu_updateTexture_def)
  have gl: "\<exists>g'. wgl_destroy g = Inr g'
         \<and> gl_programs g' = [] \<and> gl_buffers g' = [] \<and> gl_textures g' = []
         \<and> gl_framebuffers g' = [] \<and> \<not> isInitialized g'
         \<and> wgl_createProgram p name sh g' = Inl (NotInitialized, g')
         \<and> wgl_createBuffer p gbc g' = Inl (NotInitialized, g')
         \<and> wgl_createTexture p gtc g' = Inl (NotInitialized, g')
         \<and> wgl_updateBuffer name data offset g' = Inl (NotFound BufferRes name, g')"
    if "isInitialized g \<and> gl_context g \<noteq> None"
  proof -
    from that obtain g' where g': "wgl_destroy g = Inr g'" "gl_programs g' = []"
      "gl_buffers g' = []" "gl_textures g' = []" "gl_framebuffers g' = []"
      "\<not> isInitialized g'"
      using wgl_destroy_clears [of g] by blast
    then show ?thesis
      by (simp add: wgl_create_requires_initialized wgl_updateBuffer_def)
  qed
  from d e u t gl wgpu_create_requires_initialized [OF d] show ?thesis
    by simp
qed

theorem C5_destroy_clears_and_gates_witness:
  "isInitialized wgpu_textured
   \<and> textures (wgpu_destroy wgpu_textured) = []
   \<and> \<not> isInitialized (wgpu_destroy wgpu_textured)
   \<and> wgpu_createTexture example_texture_config (wgpu_destroy wgpu_textured)
       = Inl (NotInitialized, wgpu_destroy wgpu_textured)
   \<and> wgpu_updateTexture ''t'' None None (wgpu_destroy wgpu_textured)
       = Inl (NotFound TextureRes ''t'', wgpu_destroy wgpu_textured)
   \<and> isInitialized wgl_buffered \<and> gl_context wgl_buffered \<noteq> None
   \<and> wgl_destroy wgl_buffered = Inr wgl_destroyed
   \<and> gl_buffers wgl_destroyed = []
   \<and> wgl_createBuffer gl_browser example_gl_buffer_config wgl_destroyed
       = Inl (NotInitialized, wgl_destroyed)
   \<and> wgl_updateBuffer ''b'' (ArrayBuffer 8) 0 wgl_destroyed
       = Inl (NotFound BufferRes ''b'', wgl_destroyed)"
proof -
  have h1: "isInitialized wgpu_textured"
    by (simp add: wgpu_textured_def wgpu_ready_def)
  have h2: "isInitialized wgl_buffered \<and> gl_context wgl_buffered \<noteq> None"
    by (simp add: wgl_buffered_def wgl_ready_def)
  note T = C5_destroy_clears_and_gates [where s = wgpu_textured
      and tc = example_texture_config and name = "''t''" and data = "ArrayBuffer 8"
      and offset = 0 and w = None and h = None and g = wgl_buffered and p = gl_browser
      and gbc = example_gl_buffer_config]
  from T h1 h2 wgl_destroyed_reached show ?thesis
    by (simp add: wgl_updateBuffer_def)
qed

subsection \<open>Unregistered names\<close>

text \<open>
  \<open>useProgram\<close>, \<open>setFramebuffer\<close>, \<open>bindTexture\<close>, \<open>updateBuffer\<close> (both backends),
  \<open>setRenderTarget\<close>, \<open>setBindGroup\<close>, \<open>updateTexture\<close> and \<open>dispatchCompute\<close> throw when
  the name is not registered, and leave the renderer unchanged: \<open>NotFound\<close>, except
  that \<open>updateBuffer\<close> of the encoder-based backend throws \<open>NotInitialized\<close> on a
  renderer that is not initialized and \<open>bindTexture\<close> with no target throws a
  \<open>TypeError\<close> on a renderer without a context. For \<open>setFramebuffer\<close> and
  \<open>setRenderTarget\<close> the name is a non-empty one: \<open>null\<close> and the empty string select
  the default target.
\<close>

lemma unregistered_name_throws:
  "(map_of (gl_programs g) name = None
      \<longrightarrow> wgl_useProgram name g = Inl (NotFound ProgramRes name, g))
   \<and> (name \<noteq> [] \<and> map_of (gl_framebuffers g) name = None
      \<longrightarrow> wgl_setFramebuffer (Some name) g = Inl (NotFound FramebufferRes name, g))
   \<and> (map_of (gl_textures g) name = None
      \<longrightarrow> wgl_bindTexture name target g
          = Inl (if target = None \<and> gl_context g = None then TypeError
                 else NotFound TextureRes name, g))
   \<and> (map_of (gl_buffers g) name = None
      \<longrightarrow> wgl_updateBuffer name data offset g = Inl (NotFound BufferRes name, g))
   \<and> (name \<noteq> [] \<and> map_of (renderTargets s) name = None
      \<longrightarrow> wgpu_setRenderTarget (Some name) s = Inl (NotFound RenderTargetRes name, s))
   \<and> (map_of (bindGroups s) name = None
      \<longrightarrow> wgpu_setBindGroup name index s = Inl (NotFound BindGroupRes name, s))
   \<and> (map_of (buffers s) name = None
      \<longrightarrow> wgpu_updateBuffer name data offset s
          = Inl (if isInitialized s then NotFound BufferRes name else NotInitialized, s))
   \<and> (map_of (textures s) name = None
      \<longrightarrow> wgpu_updateTexture name w h s = Inl (NotFound TextureRes name, s))
   \<and> (map_of (computePipelines s) name = None
      \<longrightarrow> wgpu_dispatchCompute name config s = Inl (NotFound ComputePipelineRes name, s))"
  by (auto simp add: wgl_useProgram_def wgl_setFramebuffer_def wgl_bindTexture_def
      wgl_updateBuffer_def wgpu_setRenderTarget_def wgpu_setBindGroup_def
      wgpu_updateBuffer_def wgpu_updateTexture_def wgpu_dispatchCompute_def
      Map_has_def truthy_str_def str_or_def split: option.splits)

lemma unregistered_name_throws_example:
  "map_of (gl_programs wgl_ready) ''missing'' = None
   \<and> wgl_useProgram ''missing'' wgl_ready = Inl (NotFound ProgramRes ''missing'', wgl_ready)
   \<and> ''missing'' \<noteq> [] \<and> map_of (gl_framebuffers wgl_ready) ''missing'' = None
   \<and> wgl_setFramebuffer (Some ''missing'') wgl_ready
       = Inl (NotFound FramebufferRes ''missing'', wgl_ready)
   \<and> map_of (gl_textures wgl_ready) ''missing'' = None
   \<and> wgl_bindTexture ''missing'' None wgl_ready
       = Inl (NotFound TextureRes ''missing'', wgl_ready)
   \<and> map_of (gl_buffers wgl_ready) ''missing'' = None
   \<and> wgl_updateBuffer ''missing'' (ArrayBuffer 8) 0 wgl_ready
       = Inl (NotFound BufferRes ''missing'', wgl_ready)
   \<and> map_of (renderTargets wgpu_ready) ''missing'' = None
   \<and> wgpu_setRenderTarget (Some ''missing'') wgpu_ready
       = Inl (NotFound RenderTargetRes ''missing'', wgpu_ready)
   \<and> map_of (bindGroups wgpu_ready) ''missing'' = None
   \<and> wgpu_setBindGroup ''missing'' 0 wgpu_ready
       = Inl (NotFound BindGroupRes ''missing'', wgpu_ready)
   \<and> map_of (buffers wgpu_ready) ''missing'' = None
   \<and> wgpu_updateBuffer ''missing'' (ArrayBuffer 8) 0 wgpu_ready
       = Inl (NotFound BufferRes ''missing'', wgpu_ready)
   \<and> map_of (textures wgpu_ready) ''missing'' = None
   \<and> wgpu_updateTexture ''missing'' None None wgpu_ready
       = Inl (NotFound TextureRes ''missing'', wgpu_ready)
   \<and> map_of (computePipelines wgpu_ready) ''missing'' = None
   \<and> wgpu_dispatchCompute ''missing'' no_dispatch wgpu_ready
       = Inl (NotFound ComputePipelineRes ''missing'', wgpu_ready)"
proof -
  have g: "gl_programs wgl_ready = []" "gl_framebuffers wgl_ready = []"
    "gl_textures wgl_ready = []" "gl_buffers wgl_ready = []" "gl_context wgl_ready \<noteq> None"
    by (simp_all add: wgl_ready_def WGLRenderer_def)
  have s: "renderTargets wgpu_ready = []" "bindGroups wgpu_ready = []"
    "buffers wgpu_ready = []" "textures wgpu_ready = []" "computePipelines wgpu_ready = []"
    "pipelines wgpu_ready = []" "isInitialized wgpu_ready"
    by (simp_all add: wgpu_ready_def WGPURenderer_def)
  note T = unregistered_name_throws [where g = wgl_ready and s = wgpu_ready
      and name = "''missing''" and target = None and data = "ArrayBuffer 8" and offset = 0
      and index = 0 and w = None and h = None and config = no_dispatch]
  from T g s show ?thesis by simp
qed

text \<open>
  Claim C7: an operation that refers to a resource by a name that is not registered
  throws, and is never a silent no-op. It fails on \<open>WGPURenderer.setPipeline\<close>, the one
  setter that does not throw: it assigns the current pipeline only when the name is
  registered and otherwise returns normally, with no error, no warning and no event.
  On a renderer with pipeline \<open>p\<close> current, and on one with no pipeline, setting a
  pipeline that does not exist changes nothing.
\<close>

theorem C7_setPipeline_ignores_unregistered:
  "isInitialized wgpu_painting
   \<and> map_of (pipelines wgpu_painting) ''missing'' = None
   \<and> wgpu_setPipeline ''missing'' wgpu_painting = wgpu_painting
   \<and> currentPipeline wgpu_painting = Some ''p''
   \<and> map_of (pipelines wgpu_ready) ''missing'' = None
   \<and> wgpu_setPipeline ''missing'' wgpu_ready = wgpu_ready"
  by (simp add: wgpu_setPipeline_def Map_has_def wgpu_painting_def wgpu_ready_def
      WGPURenderer_def)

subsection \<open>Multisampling\<close>

text \<open>
  Claim C8. On an initialized renderer that holds a device \<open>setMSAA\<close> leaves the
  sample count at 4 or at 1 and returns \<open>true\<close>. Enabling destroys the multisample texture
  there was, if any, and stores a new one, with a fresh handle, of the canvas's width
  and height, the canvas format and 4 samples. Disabling destroys the multisample
  texture there was, if any, and stores \<open>null\<close>. In both cases \<open>msaaChanged\<close> is emitted.
  On a renderer that is not initialized \<open>setMSAA\<close> warns, returns \<open>false\<close> and changes
  nothing else.
\<close>

theorem C8_setMSAA_two_levels:
  "(isInitialized s \<and> device s = Some d \<longrightarrow>
      (\<exists>s' t. wgpu_setMSAA True s = Inr (True, s')
          \<and> msaaSampleCount s' = 4 \<and> msaaTexture s' = Some t
          \<and> at_texture t = nextHandle s
          \<and> at_width t = canvas_width (canvas s) \<and> at_height t = canvas_height (canvas s)
          \<and> at_sampleCount t = Some 4 \<and> at_format t = format s
          \<and> destroyed s' = destroyed s
              @ (case msaaTexture s of None \<Rightarrow> [] | Some old \<Rightarrow> [at_texture old])
          \<and> events s' = events s @ [EvMsaaChanged 4])
      \<and> (\<exists>s'. wgpu_setMSAA False s = Inr (True, s')
          \<and> msaaSampleCount s' = 1 \<and> msaaTexture s' = None
          \<and> destroyed s' = destroyed s
              @ (case msaaTexture s of None \<Rightarrow> [] | Some old \<Rightarrow> [at_texture old])
          \<and> nextHandle s' = nextHandle s
          \<and> events s' = events s @ [EvMsaaChanged 1]))
   \<and> (\<not> isInitialized s0 \<longrightarrow>
      wgpu_setMSAA enabled s0 = Inr (False, s0\<lparr>console := console s0 @ [WarnNotInitialized]\<rparr>))"
  by (auto simp add: wgpu_setMSAA_def wgpu_createMSAATexture_def emit_def console_write_def
      Let_def split: option.splits)

theorem C8_setMSAA_two_levels_witness:
  "isInitialized wgpu_ready \<and> device wgpu_ready = Some 0
   \<and> wgpu_setMSAA True wgpu_ready = Inr (True, wgpu_multisampled)
   \<and> msaaSampleCount wgpu_multisampled = 4
   \<and> msaaTexture wgpu_multisampled = Some example_msaa_texture
   \<and> at_width example_msaa_texture = canvas_width example_canvas
   \<and> at_height example_msaa_texture = canvas_height example_canvas
   \<and> isInitialized wgpu_multisampled \<and> device wgpu_multisampled = Some 0
   \<and> (\<exists>s'. wgpu_setMSAA False wgpu_multisampled = Inr (True, s')
          \<and> msaaSampleCount s' = 1 \<and> msaaTexture s' = None
          \<and> destroyed s' = [at_texture example_msaa_texture])
   \<and> \<not> isInitialized (WGPURenderer example_canvas)
   \<and> wgpu_setMSAA True (WGPURenderer example_canvas)
       = Inr (False, (WGPURenderer example_canvas)\<lparr>console := [WarnNotInitialized]\<rparr>)"
proof -
  have h1: "isInitialized wgpu_ready \<and> device wgpu_ready = Some 0"
    by (simp add: wgpu_ready_def WGPURenderer_def)
  have h2: "isInitialized wgpu_multisampled \<and> device wgpu_multisampled = Some 0"
    by (simp add: wgpu_multisampled_def wgpu_ready_def WGPURenderer_def)
  have h3: "\<not> isInitialized (WGPURenderer example_canvas)"
    "console (WGPURenderer example_canvas) = []"
    by (simp_all add: WGPURenderer_def)
  have f: "msaaTexture wgpu_multisampled = Some example_msaa_texture"
    "destroyed wgpu_multisampled = []" "canvas wgpu_ready = example_canvas"
    by (simp_all add: wgpu_multisampled_def wgpu_ready_def WGPURenderer_def)
  from C8_setMSAA_two_levels [where s = wgpu_ready and d = 0] h1 wgpu_multisampled_reached f
  have a: "msaaSampleCount wgpu_multisampled = 4
      \<and> at_width example_msaa_texture = canvas_width example_canvas
      \<and> at_height example_msaa_texture = canvas_height example_canvas"
    by auto
  from C8_setMSAA_two_levels [where s = wgpu_multisampled and d = 0] h2 f
  have b: "\<exists>s'. wgpu_setMSAA False wgpu_multisampled = Inr (True, s')
          \<and> msaaSampleCount s' = 1 \<and> msaaTexture s' = None
          \<and> destroyed s' = [at_texture example_msaa_texture]"
    by auto
  from C8_setMSAA_two_levels [where ?s0.0 = "WGPURenderer example_canvas" and enabled = True]
    h3
  have c: "wgpu_setMSAA True (WGPURenderer example_canvas)
       = Inr (False, (WGPURenderer example_canvas)\<lparr>console := [WarnNotInitialized]\<rparr>)"
    by simp
  from h1 h2 h3 f a b c wgpu_multisampled_reached show ?thesis by simp
qed

subsection \<open>The capability probes\<close>

text \<open>
  Claim C9 as stated fails on the encoder-based backend. \<open>WGPURenderer.isSupported\<close>
  tests that four globals are defined; it creates no probe surface and acquires
  nothing. A browser that defines them and then grants no adapter, no device and no
  context is accepted as supported, and \<open>initialize\<close> fails on it later.
\<close>

theorem C9_counterexample:
  "wgpu_isSupported gpu_without_adapter
   \<and> \<not> adapter_granted gpu_without_adapter
   \<and> \<not> device_granted gpu_without_adapter
   \<and> \<not> webgpu_context_granted gpu_without_adapter
   \<and> wgpu_initialize gpu_without_adapter (WGPURenderer example_canvas)
       = Inl (ContextAcquisitionFailed,
           (WGPURenderer example_canvas)\<lparr>
             events := [EvError ContextAcquisitionFailed],
             console := [ErrorFailedToInitialize ContextAcquisitionFailed]\<rparr>)"
  by (simp add: wgpu_isSupported_def gpu_without_adapter_def gpu_browser_def wgpu_initialize_def
      wgpu_initialize_catch_def emit_def console_write_def WGPURenderer_def)

text \<open>
  Claim C9, amended. The probes are functions of the browser alone: no renderer is
  read or written. \<open>WGLRenderer.isSupported\<close> holds exactly when the first context the
  throwaway canvas gives, for \<open>webgl\<close> or else \<open>experimental-webgl\<close>, is a
  \<open>WebGLRenderingContext\<close>; \<open>WGL2Renderer.isSupported\<close> exactly when the context given
  for \<open>webgl2\<close> is a \<open>WebGL2RenderingContext\<close>, so that a context of another family is
  rejected. When the probe fails, \<open>initialize\<close> throws \<open>UnsupportedBackend\<close> and leaves
  the renderer untouched. \<open>WGPURenderer.isSupported\<close> holds exactly when \<open>navigator\<close>,
  \<open>navigator.gpu\<close>, \<open>GPUAdapter\<close> and \<open>GPUDevice\<close> are defined.
\<close>

theorem C9_isSupported:
  "(wgl_isSupported p \<longleftrightarrow>
      probe_getContext p ''webgl'' = Some WebGLRenderingContext
      \<or> (probe_getContext p ''webgl'' = None
          \<and> probe_getContext p ''experimental-webgl'' = Some WebGLRenderingContext))
   \<and> (wgl2_isSupported p \<longleftrightarrow> probe_getContext p ''webgl2'' = Some WebGL2RenderingContext)
   \<and> (probe_getContext p ''webgl2'' = Some WebGLRenderingContext \<longrightarrow> \<not> wgl2_isSupported p)
   \<and> (\<not> wgl_isSupported p \<longrightarrow> wgl_initialize p g = Inl (UnsupportedBackend, g))
   \<and> (\<not> wgl2_isSupported p \<longrightarrow> wgl2_initialize p h = Inl (UnsupportedBackend, h))
   \<and> (wgpu_isSupported q \<longleftrightarrow>
        navigator_defined q \<and> navigator_gpu_defined q \<and> GPUAdapter_defined q
        \<and> GPUDevice_defined q)
   \<and> (\<not> wgpu_isSupported q \<longrightarrow> wgpu_initialize q s = Inl (UnsupportedBackend, s))"
  by (auto simp add: wgl_isSupported_def wgl2_isSupported_def wgpu_isSupported_def
      first_context_def wgl_initialize_def wgl2_initialize_def wgpu_initialize_def Let_def
      split: option.splits)

theorem C9_isSupported_witness:
  "probe_getContext gl_fallback_browser ''webgl2'' = Some WebGLRenderingContext
   \<and> \<not> wgl2_isSupported gl_fallback_browser
   \<and> \<not> wgl_isSupported gl_fallback_browser
   \<and> wgl_initialize gl_fallback_browser (WGLRenderer example_canvas default_options)
       = Inl (UnsupportedBackend, WGLRenderer example_canvas default_options)
   \<and> wgl2_initialize gl_fallback_browser (WGL2Renderer example_canvas default_options)
       = Inl (UnsupportedBackend, WGL2Renderer example_canvas default_options)
   \<and> \<not> wgpu_isSupported gpu_absent
   \<and> wgpu_initialize gpu_absent (WGPURenderer example_canvas)
       = Inl (UnsupportedBackend, WGPURenderer example_canvas)"
proof -
  have a: "probe_getContext gl_fallback_browser ''webgl2'' = Some WebGLRenderingContext"
    "probe_getContext gl_fallback_browser ''webgl'' = None"
    "probe_getContext gl_fallback_browser ''experimental-webgl'' = None"
    by (simp_all add: gl_fallback_browser_def)
  have b: "\<not> navigator_gpu_defined gpu_absent"
    by (simp add: gpu_absent_def)
  note T = C9_isSupported [where p = gl_fallback_browser and q = gpu_absent
      and g = "WGLRenderer example_canvas default_options"
      and h = "WGL2Renderer example_canvas default_options"
      and s = "WGPURenderer example_canvas"]
  from T a b show ?thesis by simp
qed

subsection \<open>Creating a bind group\<close>

text \<open>
  Claim C10. \<open>createBindGroup\<close> throws whenever no pipeline is current
  (\<open>currentPipeline_\<close> is \<open>null\<close> or empty): \<open>NotInitialized\<close> on a renderer that is not
  initialized, \<open>NoPipelineSet\<close> otherwise, and changes nothing. Whenever it returns
  normally, a pipeline is current and registered, and the bind group stored under the
  configuration's name has a fresh handle, the configuration's entries, and as layout
  what that pipeline reports at index 0.
\<close>

theorem C10_createBindGroup_needs_pipeline:
  "(\<not> truthy_str (currentPipeline s1)
      \<longrightarrow> wgpu_createBindGroup config s1
          = Inl (if isInitialized s1 then NoPipelineSet else NotInitialized, s1))
   \<and> (wgpu_createBindGroup config s = Inr s'
      \<longrightarrow> isInitialized s
          \<and> (\<exists>current pipeline.
                currentPipeline s = Some current \<and> current \<noteq> []
                \<and> map_of (pipelines s) current = Some pipeline
                \<and> map_of (bindGroups s') (bgc_name config)
                    = Some \<lparr>bg_handle = nextHandle s,
                            bg_layout = getBindGroupLayout pipeline 0,
                            bg_entries = bgc_entries config\<rparr>))"
  by (auto simp add: wgpu_createBindGroup_def truthy_str_def emit_def update_conv' Let_def
      split: option.splits if_splits)

theorem C10_createBindGroup_needs_pipeline_witness:
  "\<not> truthy_str (currentPipeline wgpu_ready) \<and> isInitialized wgpu_ready
   \<and> wgpu_createBindGroup example_bind_group_config wgpu_ready
       = Inl (NoPipelineSet, wgpu_ready)
   \<and> wgpu_createBindGroup example_bind_group_config wgpu_painting = Inr wgpu_grouped
   \<and> currentPipeline wgpu_painting = Some ''p''
   \<and> map_of (pipelines wgpu_painting) ''p'' = Some example_pipeline
   \<and> map_of (bindGroups wgpu_grouped) ''g''
       = Some \<lparr>bg_handle = 4, bg_layout = getBindGroupLayout example_pipeline 0,
               bg_entries = [\<lparr>binding = 0, resource = 7\<rparr>]\<rparr>"
proof -
  have h1: "\<not> truthy_str (currentPipeline wgpu_ready)" "isInitialized wgpu_ready"
    by (simp_all add: wgpu_ready_def WGPURenderer_def truthy_str_def)
  have f: "currentPipeline wgpu_painting = Some ''p''" "nextHandle wgpu_painting = 4"
    "map_of (pipelines wgpu_painting) ''p'' = Some example_pipeline"
    "bgc_name example_bind_group_config = ''g''"
    "bgc_entries example_bind_group_config = [\<lparr>binding = 0, resource = 7\<rparr>]"
    by (simp_all add: wgpu_painting_def wgpu_ready_def example_bind_group_config_def)
  note A = C10_createBindGroup_needs_pipeline [where ?s1.0 = wgpu_ready
      and config = example_bind_group_config and s = wgpu_painting and s' = wgpu_grouped]
  from A h1 have a: "wgpu_createBindGroup example_bind_group_config wgpu_ready
       = Inl (NoPipelineSet, wgpu_ready)"
    by simp
  from A wgpu_grouped_reached f
  have b: "map_of (bindGroups wgpu_grouped) ''g''
       = Some \<lparr>bg_handle = 4, bg_layout = getBindGroupLayout example_pipeline 0,
               bg_entries = [\<lparr>binding = 0, resource = 7\<rparr>]\<rparr>"
    by auto
  from h1 f a b wgpu_grouped_reached show ?thesis by simp
qed

end
